theory Spec2Isabelle
  imports Main "HOL-Library.Word"
begin

unbundle bit_operations_syntax

section \<open>Sony IMX585 sensor driver: drivers/media/i2c/imx585.c\<close>

text \<open>
  A shallow embedding of the driver. Every C function that touches the device takes the
  driver instance and returns its C return value together with the updated instance.
  What the driver does to the outside world (register bus writes, sleeps, kernel log
  lines, runtime-PM and control-framework calls) is appended, in program order, to the
  \<open>trace\<close> of the instance, so that orderings can be stated and proved.
\<close>

subsection \<open>Machine types and the register map\<close>

type_synonym u8 = "8 word"
type_synonym u16 = "16 word"
type_synonym u32 = "32 word"

definition IMX585_STANDBY :: u16 where "IMX585_STANDBY = 0x3000"
definition IMX585_REGHOLD :: u16 where "IMX585_REGHOLD = 0x3001"
definition IMX585_XMSTA :: u16 where "IMX585_XMSTA = 0x3002"
definition IMX585_INCK_SEL :: u16 where "IMX585_INCK_SEL = 0x3014"
definition IMX585_INCK_SEL_74_25 :: u8 where "IMX585_INCK_SEL_74_25 = 0x00"
definition IMX585_INCK_SEL_37_125 :: u8 where "IMX585_INCK_SEL_37_125 = 0x01"
definition IMX585_INCK_SEL_72 :: u8 where "IMX585_INCK_SEL_72 = 0x02"
definition IMX585_INCK_SEL_27 :: u8 where "IMX585_INCK_SEL_27 = 0x03"
definition IMX585_INCK_SEL_24 :: u8 where "IMX585_INCK_SEL_24 = 0x04"
definition IMX585_LANE_RATE :: u16 where "IMX585_LANE_RATE = 0x3015"
definition IMX585_LANE_RATE_1188 :: u8 where "IMX585_LANE_RATE_1188 = 0x04"
definition IMX585_LANE_RATE_594 :: u8 where "IMX585_LANE_RATE_594 = 0x07"
definition IMX585_FLIP_WINMODEH :: u16 where "IMX585_FLIP_WINMODEH = 0x3020"
definition IMX585_FLIP_WINMODEV :: u16 where "IMX585_FLIP_WINMODEV = 0x3021"
definition IMX585_ADBIT :: u16 where "IMX585_ADBIT = 0x3022"
definition IMX585_MDBIT :: u16 where "IMX585_MDBIT = 0x3023"
definition IMX585_VMAX :: u16 where "IMX585_VMAX = 0x3028"
definition IMX585_VMAX_MAX :: u32 where "IMX585_VMAX_MAX = 0x0fffff"
definition IMX585_HMAX :: u16 where "IMX585_HMAX = 0x302c"
definition IMX585_HMAX_MAX :: u32 where "IMX585_HMAX_MAX = 0xffff"
definition IMX585_FR_FDG_SEL0 :: u16 where "IMX585_FR_FDG_SEL0 = 0x3030"
definition IMX585_FDG_SEL0_LCG :: u8 where "IMX585_FDG_SEL0_LCG = 0x00"
definition IMX585_FDG_SEL0_HCG :: u8 where "IMX585_FDG_SEL0_HCG = 0x01"
definition IMX585_FR_FDG_SEL1 :: u16 where "IMX585_FR_FDG_SEL1 = 0x3031"
definition IMX585_FR_FDG_SEL2 :: u16 where "IMX585_FR_FDG_SEL2 = 0x3032"
definition IMX585_CSI_LANE_MODE :: u16 where "IMX585_CSI_LANE_MODE = 0x3040"
definition IMX585_EXPOSURE :: u16 where "IMX585_EXPOSURE = 0x3050"
definition IMX585_GAIN :: u16 where "IMX585_GAIN = 0x306C"

definition IMX585_EXPOSURE_MIN :: u32 where "IMX585_EXPOSURE_MIN = 8"
definition IMX585_EXPOSURE_STEP :: nat where "IMX585_EXPOSURE_STEP = 2"

text \<open>The source comments this constant: exposure must be this many lines less than VMAX.\<close>

definition IMX585_EXPOSURE_OFFSET :: u32 where "IMX585_EXPOSURE_OFFSET = 4"

definition IMX585_NATIVE_WIDTH :: u32 where "IMX585_NATIVE_WIDTH = 3876"
definition IMX585_NATIVE_HEIGHT :: u32 where "IMX585_NATIVE_HEIGHT = 2204"
definition IMX585_PIXEL_ARRAY_LEFT :: u32 where "IMX585_PIXEL_ARRAY_LEFT = 0"
definition IMX585_PIXEL_ARRAY_TOP :: u32 where "IMX585_PIXEL_ARRAY_TOP = 20"
definition IMX585_PIXEL_ARRAY_WIDTH :: u32 where "IMX585_PIXEL_ARRAY_WIDTH = 3856"
definition IMX585_PIXEL_ARRAY_HEIGHT :: u32 where "IMX585_PIXEL_ARRAY_HEIGHT = 2180"

definition EINVAL :: int where "EINVAL = 22"
definition ENODEV :: int where "ENODEV = 19"
definition ENOMEM :: int where "ENOMEM = 12"

subsection \<open>Register programs\<close>

text \<open>
  \<open>struct imx585_regval { u16 reg; u8 val; }\<close> is a pair (address, value). A C array
  handed over as pointer and element count (\<open>ARRAY_SIZE\<close>, \<open>mode_data_size\<close>) is a list.
\<close>

type_synonym imx585_regval = "u16 \<times> u8"

text \<open>The baseline table, entry by entry; the lines commented out in the source are left out.\<close>

definition imx585_global_settings :: "imx585_regval list" where
  "imx585_global_settings = [
  (0x3002, 0x00), (0x301A, 0x00), (0x301B, 0x00), (0x301C, 0x00), (0x301E, 0x01),
  (0x3024, 0x00), (0x303C, 0x00), (0x303D, 0x00), (0x303E, 0x10), (0x303F, 0x0F),
  (0x3040, 0x01), (0x3042, 0x00), (0x3043, 0x00), (0x3044, 0x00), (0x3045, 0x00),
  (0x3046, 0x84), (0x3047, 0x08), (0x3054, 0x0E), (0x3055, 0x00), (0x3056, 0x00),
  (0x3058, 0x8A), (0x3059, 0x01), (0x305A, 0x00), (0x3060, 0x16), (0x3061, 0x01),
  (0x3062, 0x00), (0x3064, 0xC4), (0x3065, 0x0C), (0x3066, 0x00), (0x3069, 0x00),
  (0x306A, 0x00), (0x306E, 0x00), (0x306F, 0x00), (0x3070, 0x00), (0x3071, 0x00),
  (0x3074, 0x64), (0x3081, 0x00), (0x308C, 0x00), (0x308D, 0x01), (0x3094, 0x00),
  (0x3095, 0x00), (0x3096, 0x00), (0x3097, 0x00), (0x309C, 0x00), (0x309D, 0x00),
  (0x30A4, 0xAA), (0x30A6, 0x00), (0x30CC, 0x00), (0x30CD, 0x00), (0x30D5, 0x04),
  (0x30DC, 0x32), (0x30DD, 0x00), (0x3400, 0x01), (0x3460, 0x21), (0x3478, 0xA1),
  (0x347C, 0x01), (0x3480, 0x01), (0x36D0, 0x00), (0x36D1, 0x10), (0x36D4, 0x00),
  (0x36D5, 0x10), (0x36E2, 0x00), (0x36E4, 0x00), (0x36E5, 0x00), (0x36E6, 0x00),
  (0x36E8, 0x00), (0x36E9, 0x00), (0x36EA, 0x00), (0x36EC, 0x00), (0x36EE, 0x00),
  (0x36EF, 0x00), (0x3930, 0x66), (0x3931, 0x01), (0x3A4C, 0x39), (0x3A4D, 0x01),
  (0x3A4E, 0x14), (0x3A50, 0x48), (0x3A51, 0x01), (0x3A52, 0x14), (0x3A56, 0x00),
  (0x3A5A, 0x00), (0x3A5E, 0x00), (0x3A62, 0x00), (0x3A6A, 0x20), (0x3A6C, 0x42),
  (0x3A6E, 0xA0), (0x3B2C, 0x0C), (0x3B30, 0x1C), (0x3B34, 0x0C), (0x3B38, 0x1C),
  (0x3BA0, 0x0C), (0x3BA4, 0x1C), (0x3BA8, 0x0C), (0x3BAC, 0x1C), (0x3D3C, 0x11),
  (0x3D46, 0x0B), (0x3DE0, 0x3F), (0x3DE1, 0x08), (0x3E10, 0x10), (0x3E14, 0x87),
  (0x3E16, 0x91), (0x3E18, 0x91), (0x3E1A, 0x87), (0x3E1C, 0x78), (0x3E1E, 0x50),
  (0x3E20, 0x50), (0x3E22, 0x50), (0x3E24, 0x87), (0x3E26, 0x91), (0x3E28, 0x91),
  (0x3E2A, 0x87), (0x3E2C, 0x78), (0x3E2E, 0x50), (0x3E30, 0x50), (0x3E32, 0x50),
  (0x3E34, 0x87), (0x3E36, 0x91), (0x3E38, 0x91), (0x3E3A, 0x87), (0x3E3C, 0x78),
  (0x3E3E, 0x50), (0x3E40, 0x50), (0x3E42, 0x50), (0x4054, 0x64), (0x4148, 0xFE),
  (0x4149, 0x05), (0x414A, 0xFF), (0x414B, 0x05), (0x420A, 0x03), (0x4231, 0x18),
  (0x423D, 0x9C), (0x4242, 0xB4), (0x4246, 0xB4), (0x424E, 0xB4), (0x425C, 0xB4),
  (0x425E, 0xB6), (0x426C, 0xB4), (0x426E, 0xB6), (0x428C, 0xB4), (0x428E, 0xB6),
  (0x4708, 0x00), (0x4709, 0x00), (0x470A, 0xFF), (0x470B, 0x03), (0x470C, 0x00),
  (0x470D, 0x00), (0x470E, 0xFF), (0x470F, 0x03), (0x47EB, 0x1C), (0x47F0, 0xA6),
  (0x47F2, 0xA6), (0x47F4, 0xA0), (0x47F6, 0x96), (0x4808, 0xA6), (0x480A, 0xA6),
  (0x480C, 0xA0), (0x480E, 0x96), (0x492C, 0xB2), (0x4930, 0x03), (0x4932, 0x03),
  (0x4936, 0x5B), (0x4938, 0x82), (0x493C, 0x23), (0x493E, 0x23), (0x4940, 0x23),
  (0x4BA8, 0x1C), (0x4BA9, 0x03), (0x4BAC, 0x1C), (0x4BAD, 0x1C), (0x4BAE, 0x1C),
  (0x4BAF, 0x1C), (0x4BB0, 0x1C), (0x4BB1, 0x1C), (0x4BB2, 0x1C), (0x4BB3, 0x1C),
  (0x4BB4, 0x1C), (0x4BB8, 0x03), (0x4BB9, 0x03), (0x4BBA, 0x03), (0x4BBB, 0x03),
  (0x4BBC, 0x03), (0x4BBD, 0x03), (0x4BBE, 0x03), (0x4BBF, 0x03), (0x4BC0, 0x03),
  (0x4C14, 0x87), (0x4C16, 0x91), (0x4C18, 0x91), (0x4C1A, 0x87), (0x4C1C, 0x78),
  (0x4C1E, 0x50), (0x4C20, 0x50), (0x4C22, 0x50), (0x4C24, 0x87), (0x4C26, 0x91),
  (0x4C28, 0x91), (0x4C2A, 0x87), (0x4C2C, 0x78), (0x4C2E, 0x50), (0x4C30, 0x50),
  (0x4C32, 0x50), (0x4C34, 0x87), (0x4C36, 0x91), (0x4C38, 0x91), (0x4C3A, 0x87),
  (0x4C3C, 0x78), (0x4C3E, 0x50), (0x4C40, 0x50), (0x4C42, 0x50), (0x4D12, 0x1F),
  (0x4D13, 0x1E), (0x4D26, 0x33), (0x4E0E, 0x59), (0x4E14, 0x55), (0x4E16, 0x59),
  (0x4E1E, 0x3B), (0x4E20, 0x47), (0x4E22, 0x54), (0x4E26, 0x81), (0x4E2C, 0x7D),
  (0x4E2E, 0x81), (0x4E36, 0x63), (0x4E38, 0x6F), (0x4E3A, 0x7C), (0x4F3A, 0x3C),
  (0x4F3C, 0x46), (0x4F3E, 0x59), (0x4F42, 0x64), (0x4F44, 0x6E), (0x4F46, 0x81),
  (0x4F4A, 0x82), (0x4F5A, 0x81), (0x4F62, 0xAA), (0x4F72, 0xA9), (0x4F78, 0x36),
  (0x4F7A, 0x41), (0x4F7C, 0x61), (0x4F7D, 0x01), (0x4F7E, 0x7C), (0x4F7F, 0x01),
  (0x4F80, 0x77), (0x4F82, 0x7B), (0x4F88, 0x37), (0x4F8A, 0x40), (0x4F8C, 0x62),
  (0x4F8D, 0x01), (0x4F8E, 0x76), (0x4F8F, 0x01), (0x4F90, 0x5E), (0x4F91, 0x02),
  (0x4F92, 0x69), (0x4F93, 0x02), (0x4F94, 0x89), (0x4F95, 0x02), (0x4F96, 0xA4),
  (0x4F97, 0x02), (0x4F98, 0x9F), (0x4F99, 0x02), (0x4F9A, 0xA3), (0x4F9B, 0x02),
  (0x4FA0, 0x5F), (0x4FA1, 0x02), (0x4FA2, 0x68), (0x4FA3, 0x02), (0x4FA4, 0x8A),
  (0x4FA5, 0x02), (0x4FA6, 0x9E), (0x4FA7, 0x02), (0x519E, 0x79), (0x51A6, 0xA1),
  (0x51F0, 0xAC), (0x51F2, 0xAA), (0x51F4, 0xA5), (0x51F6, 0xA0), (0x5200, 0x9B),
  (0x5202, 0x91), (0x5204, 0x87), (0x5206, 0x82), (0x5208, 0xAC), (0x520A, 0xAA),
  (0x520C, 0xA5), (0x520E, 0xA0), (0x5210, 0x9B), (0x5212, 0x91), (0x5214, 0x87),
  (0x5216, 0x82), (0x5218, 0xAC), (0x521A, 0xAA), (0x521C, 0xA5), (0x521E, 0xA0),
  (0x5220, 0x9B), (0x5222, 0x91), (0x5224, 0x87), (0x5226, 0x82)
  ]"

definition imx585_1080p_common_settings :: "imx585_regval list" where
  "imx585_1080p_common_settings =
     [(0x3018, 0x10), (IMX585_FR_FDG_SEL1, 0x00), (IMX585_FR_FDG_SEL2, 0x00)]"

subsection \<open>Data model\<close>

record v4l2_rect =
  left :: int
  top :: int
  width :: u32
  height :: u32

record imx585_mode =
  width :: u32
  height :: u32
  hmax :: u32
  vmax :: u32
  crop :: v4l2_rect
  mode_data :: "imx585_regval list"

record imx585_pixfmt =
  code :: u32
  bpp :: u8

text \<open>Media bus codes of \<open>uapi/linux/media-bus-format.h\<close>, a header outside the driver.\<close>

definition MEDIA_BUS_FMT_Y10_1X10 :: u32 where "MEDIA_BUS_FMT_Y10_1X10 = 0x200a"
definition MEDIA_BUS_FMT_Y12_1X12 :: u32 where "MEDIA_BUS_FMT_Y12_1X12 = 0x2013"
definition MEDIA_BUS_FMT_SRGGB10_1X10 :: u32 where "MEDIA_BUS_FMT_SRGGB10_1X10 = 0x300f"
definition MEDIA_BUS_FMT_SRGGB12_1X12 :: u32 where "MEDIA_BUS_FMT_SRGGB12_1X12 = 0x3012"

definition IMX585_NUM_FORMATS :: nat where "IMX585_NUM_FORMATS = 2"

definition imx585_colour_formats :: "imx585_pixfmt list" where
  "imx585_colour_formats =
     [\<lparr>code = MEDIA_BUS_FMT_SRGGB10_1X10, bpp = 10\<rparr>,
      \<lparr>code = MEDIA_BUS_FMT_SRGGB12_1X12, bpp = 12\<rparr>]"

definition imx585_mono_formats :: "imx585_pixfmt list" where
  "imx585_mono_formats =
     [\<lparr>code = MEDIA_BUS_FMT_Y10_1X10, bpp = 10\<rparr>,
      \<lparr>code = MEDIA_BUS_FMT_Y12_1X12, bpp = 12\<rparr>]"

definition imx585_link_freq_2lanes :: "int list" where
  "imx585_link_freq_2lanes = [594000000]"

definition imx585_link_freq_4lanes :: "int list" where
  "imx585_link_freq_4lanes = [297000000]"

definition imx585_modes :: "imx585_mode list" where
  "imx585_modes =
     [\<lparr>imx585_mode.width = 3856, imx585_mode.height = 2180, hmax = 3944 * 2, vmax = 0x08ca,
       crop = \<lparr>left = uint IMX585_PIXEL_ARRAY_LEFT, top = uint IMX585_PIXEL_ARRAY_TOP,
                v4l2_rect.width = IMX585_NATIVE_WIDTH, v4l2_rect.height = IMX585_NATIVE_HEIGHT\<rparr>,
       mode_data = imx585_1080p_common_settings\<rparr>]"

definition IMX585_NUM_MODES :: nat where "IMX585_NUM_MODES = length imx585_modes"

text \<open>The controls of the V4L2 control framework that the driver creates and handles.\<close>

datatype v4l2_cid =
    V4L2_CID_ANALOGUE_GAIN
  | V4L2_CID_EXPOSURE
  | V4L2_CID_HBLANK
  | V4L2_CID_VBLANK
  | V4L2_CID_HFLIP
  | V4L2_CID_VFLIP
  | V4L2_CID_LINK_FREQ
  | V4L2_CID_PIXEL_RATE

text \<open>
  \<open>struct v4l2_ctrl\<close>, the fields the driver reads or has the framework set. The range and
  the value are kept as mathematical integers (the C fields are \<open>s64\<close> and \<open>s32\<close>); the
  conversions to \<open>u32\<close> that the C calls make are written out where they happen.
\<close>

record v4l2_ctrl =
  cid :: v4l2_cid
  minimum :: int
  maximum :: int
  step :: nat
  default_value :: int
  val :: int
  read_only :: bool
  grabbed :: bool

datatype v4l2_field = V4L2_FIELD_ANY | V4L2_FIELD_NONE

datatype v4l2_colorspace = V4L2_COLORSPACE_DEFAULT | V4L2_COLORSPACE_RAW

datatype v4l2_ycbcr_encoding = V4L2_YCBCR_ENC_DEFAULT | V4L2_YCBCR_ENC_601

datatype v4l2_quantization =
  V4L2_QUANTIZATION_DEFAULT | V4L2_QUANTIZATION_FULL_RANGE | V4L2_QUANTIZATION_LIM_RANGE

datatype v4l2_xfer_func = V4L2_XFER_FUNC_DEFAULT | V4L2_XFER_FUNC_709 | V4L2_XFER_FUNC_NONE

record v4l2_mbus_framefmt =
  width :: u32
  height :: u32
  code :: u32
  field :: v4l2_field
  colorspace :: v4l2_colorspace
  ycbcr_enc :: v4l2_ycbcr_encoding
  quantization :: v4l2_quantization
  xfer_func :: v4l2_xfer_func

datatype v4l2_subdev_format_whence = V4L2_SUBDEV_FORMAT_TRY | V4L2_SUBDEV_FORMAT_ACTIVE

record v4l2_subdev_format =
  which :: v4l2_subdev_format_whence
  pad :: nat
  format :: v4l2_mbus_framefmt

text \<open>The per-file-handle try state of the single source pad.\<close>

record v4l2_subdev_state =
  try_fmt :: v4l2_mbus_framefmt
  try_crop :: v4l2_rect

datatype v4l2_sel_tgt =
    V4L2_SEL_TGT_CROP
  | V4L2_SEL_TGT_CROP_DEFAULT
  | V4L2_SEL_TGT_CROP_BOUNDS
  | V4L2_SEL_TGT_NATIVE_SIZE
  | V4L2_SEL_TGT_COMPOSE

record v4l2_subdev_selection =
  sel_which :: v4l2_subdev_format_whence
  sel_pad :: nat
  target :: v4l2_sel_tgt
  r :: v4l2_rect

subsection \<open>Observable effects\<close>

datatype event =
    Regmap_write u16 u8 int
  | Usleep_range nat nat
  | Msleep nat
  | Dev_err string "int list"
  | Pr_err string "int list"
  | Pm_runtime_resume_and_get int
  | Pm_runtime_put
  | Ctrl_modify_range v4l2_cid int int nat int

text \<open>
  \<open>struct imx585\<close>. A pointer that can be \<open>NULL\<close> is an option. \<open>regmap\<close> stands for the
  register bus behind the handle: given what has happened so far and an (address, value)
  pair it answers with an errno, 0 for success. The control handler \<open>ctrls\<close> is the order
  in which it lists its controls; the controls themselves sit behind the pointer fields,
  where \<open>gain\<close> and \<open>link_freq\<close> stand for the two controls that only the handler points
  to. The last three fields are not C fields: the history of effects, the runtime-PM usage
  count of the device, and the outcome of the next runtime-PM resume.
\<close>

record imx585 =
  inck_sel :: u8
  regmap :: "event list \<Rightarrow> u16 \<Rightarrow> u8 \<Rightarrow> nat"
  nlanes :: u8
  bpp :: u8
  formats :: "imx585_pixfmt list"
  current_format :: v4l2_mbus_framefmt
  current_mode :: "imx585_mode option"
  ctrls :: "v4l2_cid list"
  gain :: "v4l2_ctrl option"
  link_freq :: "v4l2_ctrl option"
  pixel_rate :: "v4l2_ctrl option"
  hblank :: "v4l2_ctrl option"
  vblank :: "v4l2_ctrl option"
  hflip :: "v4l2_ctrl option"
  vflip :: "v4l2_ctrl option"
  exposure :: "v4l2_ctrl option"
  trace :: "event list"
  pm_usage :: nat
  pm_resume :: "event list \<Rightarrow> nat"

subsection \<open>Register bus access\<close>

text \<open>
  Modelled from the spec: \<open>regmap_write\<close> is the kernel's register-map layer, outside the
  driver file. Spec 6: \<open>write(address: u16, value: u8) -> (ok | IOError)\<close>, synchronous; the
  C function returns 0 or a negative errno. The sleeps are blocking waits (spec 5) and are
  recorded with their duration; a kernel log line is recorded with its format string,
  without the final newline, and its arguments.
\<close>

definition regmap_write :: "imx585 \<Rightarrow> u16 \<Rightarrow> u8 \<Rightarrow> int \<times> imx585" where
  "regmap_write s addr value =
     (let ret = - int (regmap s (trace s) addr value)
      in (ret, s\<lparr>trace := trace s @ [Regmap_write addr value ret]\<rparr>))"

definition dev_err :: "imx585 \<Rightarrow> string \<Rightarrow> int list \<Rightarrow> imx585" where
  "dev_err s msg args = s\<lparr>trace := trace s @ [Dev_err msg args]\<rparr>"

definition usleep_range :: "imx585 \<Rightarrow> nat \<Rightarrow> nat \<Rightarrow> imx585" where
  "usleep_range s lo hi = s\<lparr>trace := trace s @ [Usleep_range lo hi]\<rparr>"

definition msleep :: "imx585 \<Rightarrow> nat \<Rightarrow> imx585" where
  "msleep s ms = s\<lparr>trace := trace s @ [Msleep ms]\<rparr>"

definition imx585_write_reg :: "imx585 \<Rightarrow> u16 \<Rightarrow> u8 \<Rightarrow> int \<times> imx585" where
  "imx585_write_reg s addr value =
     (case regmap_write s addr value of (ret, s1) \<Rightarrow>
        if ret \<noteq> 0 then (ret, dev_err s1 ''I2C write failed for addr: %x'' [uint addr])
        else (ret, s1))"

fun imx585_set_register_array :: "imx585 \<Rightarrow> imx585_regval list \<Rightarrow> int \<times> imx585" where
  "imx585_set_register_array s [] = (0, usleep_range s 10000 11000)"
| "imx585_set_register_array s ((reg, v) # settings) =
     (case imx585_write_reg s reg v of (ret, s1) \<Rightarrow>
        if ret < 0 then (ret, s1) else imx585_set_register_array s1 settings)"

text \<open>The \<open>for\<close> loop of \<open>imx585_write_buffered_reg\<close>, entered with \<open>i = 0\<close>.\<close>

function imx585_write_buffered_bytes ::
  "imx585 \<Rightarrow> u16 \<Rightarrow> nat \<Rightarrow> u32 \<Rightarrow> nat \<Rightarrow> int \<times> imx585" where
  "imx585_write_buffered_bytes s address_low nr_regs value i =
     (if i < nr_regs then
        (case imx585_write_reg s (address_low + of_nat i) (ucast (drop_bit (i * 8) value)) of
           (ret, s1) \<Rightarrow>
             if ret \<noteq> 0 then (ret, dev_err s1 ''Error writing buffered registers'' [])
             else imx585_write_buffered_bytes s1 address_low nr_regs value (Suc i))
      else (0, s))"
  by pat_completeness auto
termination
  by (relation "measure (\<lambda>(s, address_low, nr_regs, value, i). nr_regs - i)") auto

declare imx585_write_buffered_bytes.simps [simp del]

definition imx585_write_buffered_reg :: "imx585 \<Rightarrow> u16 \<Rightarrow> nat \<Rightarrow> u32 \<Rightarrow> int \<times> imx585" where
  "imx585_write_buffered_reg s address_low nr_regs value =
     (case imx585_write_reg s IMX585_REGHOLD 0x01 of (ret, s1) \<Rightarrow>
        if ret \<noteq> 0 then (ret, dev_err s1 ''Error setting hold register'' [])
        else
          (case imx585_write_buffered_bytes s1 address_low nr_regs value 0 of (ret, s2) \<Rightarrow>
             if ret \<noteq> 0 then (ret, s2)
             else
               (case imx585_write_reg s2 IMX585_REGHOLD 0x00 of (ret, s3) \<Rightarrow>
                  if ret \<noteq> 0 then (ret, dev_err s3 ''Error setting hold register'' [])
                  else (ret, s3))))"


subsection \<open>Control framework and runtime PM, as far as the driver relies on them\<close>

text \<open>
  Modelled from the spec: \<open>__v4l2_ctrl_modify_range\<close> belongs to the V4L2 control framework,
  which is not part of the driver file. Spec 4.1 and 8: the control's range, step and
  default are replaced; a current value that is still in the new range is preserved, one
  that is out of range is clamped to the new maximum.
\<close>

definition v4l2_ctrl_modify_range :: "v4l2_ctrl \<Rightarrow> int \<Rightarrow> int \<Rightarrow> nat \<Rightarrow> int \<Rightarrow> v4l2_ctrl" where
  "v4l2_ctrl_modify_range c mn mx st df =
     c\<lparr>minimum := mn, maximum := mx, step := st, default_value := df,
       val := (if mn \<le> val c \<and> val c \<le> mx then val c else mx)\<rparr>"

definition range_modified :: "imx585 \<Rightarrow> v4l2_ctrl \<Rightarrow> int \<Rightarrow> int \<Rightarrow> nat \<Rightarrow> int \<Rightarrow> imx585" where
  "range_modified s c mn mx st df =
     s\<lparr>trace := trace s @ [Ctrl_modify_range (cid c) mn mx st df]\<rparr>"

text \<open>
  Modelled from the spec: \<open>__v4l2_ctrl_s_ctrl\<close> and \<open>__v4l2_ctrl_s_ctrl_int64\<close> are the
  framework's. Spec 4.4 and 5: a negotiated mode resets the blanking controls to their new
  defaults in the in-memory device state. The model stores the value; the framework's
  call-back into the driver for a changed value is left out.
\<close>

definition v4l2_ctrl_s_ctrl :: "v4l2_ctrl \<Rightarrow> int \<Rightarrow> v4l2_ctrl" where
  "v4l2_ctrl_s_ctrl c v = c\<lparr>val := v\<rparr>"

text \<open>
  Modelled from the spec: \<open>v4l2_ctrl_new_std\<close> is the framework's. Spec 6: a control is
  created with its range, step and default, holds the default as its value, and the pixel
  rate is read-only.
\<close>

definition v4l2_ctrl_new_std :: "v4l2_cid \<Rightarrow> int \<Rightarrow> int \<Rightarrow> nat \<Rightarrow> int \<Rightarrow> v4l2_ctrl" where
  "v4l2_ctrl_new_std i mn mx st df =
     \<lparr>cid = i, minimum = mn, maximum = mx, step = st, default_value = df, val = df,
      read_only = (i = V4L2_CID_PIXEL_RATE), grabbed = False\<rparr>"

text \<open>
  Modelled from the spec: \<open>__v4l2_ctrl_grab\<close> is the framework's; it write-protects a
  control (spec 3: the flips are immutable once streaming is active) and does nothing for a
  \<open>NULL\<close> control.
\<close>

definition v4l2_ctrl_grab :: "v4l2_ctrl option \<Rightarrow> bool \<Rightarrow> v4l2_ctrl option" where
  "v4l2_ctrl_grab c g = (case c of None \<Rightarrow> None | Some c' \<Rightarrow> Some (c'\<lparr>grabbed := g\<rparr>))"

text \<open>
  Modelled from the spec: runtime PM is an external collaborator (spec 4.5 step 1 and
  spec 5). Resuming can fail and otherwise takes a usage reference; a control update
  reaches the bus only while the device is in use; \<open>pm_runtime_put\<close> drops a reference.
\<close>

definition pm_runtime_resume_and_get :: "imx585 \<Rightarrow> int \<times> imx585" where
  "pm_runtime_resume_and_get s =
     (let ret = - int (pm_resume s (trace s));
          s1 = s\<lparr>trace := trace s @ [Pm_runtime_resume_and_get ret]\<rparr>
      in if ret < 0 then (ret, s1) else (ret, s1\<lparr>pm_usage := Suc (pm_usage s1)\<rparr>))"

definition pm_runtime_get_if_in_use :: "imx585 \<Rightarrow> bool \<times> imx585" where
  "pm_runtime_get_if_in_use s =
     (if 0 < pm_usage s then (True, s\<lparr>pm_usage := Suc (pm_usage s)\<rparr>) else (False, s))"

definition pm_runtime_put :: "imx585 \<Rightarrow> imx585" where
  "pm_runtime_put s = s\<lparr>pm_usage := pm_usage s - 1, trace := trace s @ [Pm_runtime_put]\<rparr>"

definition pr_err :: "imx585 \<Rightarrow> string \<Rightarrow> int list \<Rightarrow> imx585" where
  "pr_err s msg args = s\<lparr>trace := trace s @ [Pr_err msg args]\<rparr>"

subsection \<open>Control mapping\<close>

text \<open>
  A function that dereferences a pointer of the instance returns \<open>None\<close> when the pointer
  is \<open>NULL\<close>: the kernel faults there.
\<close>

definition imx585_set_gain :: "imx585 \<Rightarrow> u32 \<Rightarrow> int \<times> imx585" where
  "imx585_set_gain s value =
     (case imx585_write_buffered_reg s IMX585_GAIN 2 value of (ret, s1) \<Rightarrow>
        if ret \<noteq> 0 then (ret, dev_err s1 ''Unable to write gain'' [])
        else
          (case imx585_write_reg s1 IMX585_FR_FDG_SEL0
                  (if value < 0x22 then IMX585_FDG_SEL0_HCG else IMX585_FDG_SEL0_LCG) of
             (ret, s2) \<Rightarrow>
               if ret \<noteq> 0 then (ret, dev_err s2 ''Unable to write LCG/HCG mode'' [])
               else (ret, s2)))"

definition imx585_set_exposure :: "imx585 \<Rightarrow> u32 \<Rightarrow> (int \<times> imx585) option" where
  "imx585_set_exposure s value =
     (case current_mode s of None \<Rightarrow> None | Some mode \<Rightarrow>
      (case vblank s of None \<Rightarrow> None | Some vb \<Rightarrow>
         (let exposure = (imx585_mode.height mode + word_of_int (val vb)) - value - 1
          in case imx585_write_buffered_reg s IMX585_EXPOSURE 3 exposure of (ret, s1) \<Rightarrow>
               if ret \<noteq> 0 then Some (ret, dev_err s1 ''Unable to write exposure'' [])
               else Some (ret, s1))))"

definition imx585_set_hmax :: "imx585 \<Rightarrow> u32 \<Rightarrow> (int \<times> imx585) option" where
  "imx585_set_hmax s v =
     (case current_mode s of None \<Rightarrow> None | Some mode \<Rightarrow>
        (let hmax = drop_bit 1 (v + imx585_mode.width mode)
         in case imx585_write_buffered_reg s IMX585_HMAX 2 hmax of (ret, s1) \<Rightarrow>
              if ret \<noteq> 0 then Some (ret, dev_err s1 ''Error setting HMAX register'' [])
              else Some (ret, s1)))"

definition imx585_set_vmax :: "imx585 \<Rightarrow> u32 \<Rightarrow> (int \<times> imx585) option" where
  "imx585_set_vmax s v =
     (case current_mode s of None \<Rightarrow> None | Some mode \<Rightarrow>
        (let vmax = v + imx585_mode.height mode
         in case imx585_write_buffered_reg s IMX585_VMAX 3 vmax of (ret, s1) \<Rightarrow>
              (let s2 = (if ret \<noteq> 0 then dev_err s1 ''Unable to write vmax'' [] else s1)
               in case exposure s2 of None \<Rightarrow> None | Some ex \<Rightarrow>
                    (let mx = uint (vmax - IMX585_EXPOSURE_OFFSET);
                         ex' = v4l2_ctrl_modify_range ex (uint IMX585_EXPOSURE_MIN) mx
                                 IMX585_EXPOSURE_STEP mx;
                         s3 = (range_modified s2 ex (uint IMX585_EXPOSURE_MIN) mx
                                 IMX585_EXPOSURE_STEP mx)\<lparr>exposure := Some ex'\<rparr>
                     in case imx585_set_exposure s3 (word_of_int (val ex')) of
                          None \<Rightarrow> None
                        | Some (ret_exposure, s4) \<Rightarrow> Some (ret, s4)))))"

definition imx585_stop_streaming :: "imx585 \<Rightarrow> int \<times> imx585" where
  "imx585_stop_streaming s =
     (case imx585_write_reg s IMX585_STANDBY 0x01 of (ret, s1) \<Rightarrow>
        if ret < 0 then (ret, s1)
        else imx585_write_reg (msleep s1 30) IMX585_XMSTA 0x01)"

text \<open>The control a \<open>struct v4l2_ctrl *\<close> of this handler points to, by its id.\<close>

definition ctrl_of :: "imx585 \<Rightarrow> v4l2_cid \<Rightarrow> v4l2_ctrl option" where
  "ctrl_of s i =
     (case i of
        V4L2_CID_ANALOGUE_GAIN \<Rightarrow> gain s
      | V4L2_CID_EXPOSURE \<Rightarrow> exposure s
      | V4L2_CID_HBLANK \<Rightarrow> hblank s
      | V4L2_CID_VBLANK \<Rightarrow> vblank s
      | V4L2_CID_HFLIP \<Rightarrow> hflip s
      | V4L2_CID_VFLIP \<Rightarrow> vflip s
      | V4L2_CID_LINK_FREQ \<Rightarrow> link_freq s
      | V4L2_CID_PIXEL_RATE \<Rightarrow> pixel_rate s)"

definition imx585_set_ctrl :: "imx585 \<Rightarrow> v4l2_cid \<Rightarrow> (int \<times> imx585) option" where
  "imx585_set_ctrl s i =
     (case ctrl_of s i of None \<Rightarrow> None | Some ctrl \<Rightarrow>
        (case pm_runtime_get_if_in_use s of (in_use, s1) \<Rightarrow>
           if \<not> in_use then Some (0, s1)
           else
             (case (case cid ctrl of
                      V4L2_CID_ANALOGUE_GAIN \<Rightarrow> Some (imx585_set_gain s1 (word_of_int (val ctrl)))
                    | V4L2_CID_EXPOSURE \<Rightarrow> imx585_set_exposure s1 (word_of_int (val ctrl))
                    | V4L2_CID_HBLANK \<Rightarrow> imx585_set_hmax s1 (word_of_int (val ctrl))
                    | V4L2_CID_VBLANK \<Rightarrow> imx585_set_vmax s1 (word_of_int (val ctrl))
                    | V4L2_CID_HFLIP \<Rightarrow>
                        Some (imx585_write_reg s1 IMX585_FLIP_WINMODEH (word_of_int (val ctrl)))
                    | V4L2_CID_VFLIP \<Rightarrow>
                        Some (imx585_write_reg s1 IMX585_FLIP_WINMODEV (word_of_int (val ctrl)))
                    | _ \<Rightarrow> Some (- EINVAL, s1)) of
                None \<Rightarrow> None
              | Some (ret, s2) \<Rightarrow> Some (ret, pm_runtime_put s2))))"

text \<open>
  Modelled from the spec: \<open>v4l2_ctrl_handler_setup\<close> is the framework's. Spec 4.5 step 8:
  the current value of every control is re-applied through the driver's set-control
  operation, and a failure aborts. A read-only control (spec 6) is passed over. The order
  of the replay is a parameter, the list \<open>ctrls\<close> of the instance: the spec names gain,
  exposure, hblank, vblank, whereas attach creates the controls as gain, hblank, vblank,
  exposure; nothing below depends on the order.
\<close>

fun v4l2_ctrl_handler_replay :: "imx585 \<Rightarrow> v4l2_cid list \<Rightarrow> (int \<times> imx585) option" where
  "v4l2_ctrl_handler_replay s [] = Some (0, s)"
| "v4l2_ctrl_handler_replay s (i # rest) =
     (case ctrl_of s i of None \<Rightarrow> None | Some ctrl \<Rightarrow>
        if read_only ctrl then v4l2_ctrl_handler_replay s rest
        else
          (case imx585_set_ctrl s i of None \<Rightarrow> None | Some (ret, s1) \<Rightarrow>
             if ret \<noteq> 0 then Some (ret, s1) else v4l2_ctrl_handler_replay s1 rest))"

definition v4l2_ctrl_handler_setup :: "imx585 \<Rightarrow> (int \<times> imx585) option" where
  "v4l2_ctrl_handler_setup s = v4l2_ctrl_handler_replay s (ctrls s)"


subsection \<open>Format negotiation and selection\<close>

definition imx585_calc_pixel_rate :: "imx585 \<Rightarrow> int" where
  "imx585_calc_pixel_rate s = 148500000"

text \<open>
  Modelled from the spec: \<open>v4l2_find_nearest_size\<close> is a macro of the V4L2 core. Spec 4.4:
  the nearest mode by absolute difference of width and height, ties broken toward the
  first catalog entry in declaration order. An empty catalog gives \<open>NULL\<close>.
\<close>

definition size_error :: "imx585_mode \<Rightarrow> u32 \<Rightarrow> u32 \<Rightarrow> int" where
  "size_error m w h =
     \<bar>uint (imx585_mode.width m) - uint w\<bar> + \<bar>uint (imx585_mode.height m) - uint h\<bar>"

fun v4l2_find_nearest_size :: "imx585_mode list \<Rightarrow> u32 \<Rightarrow> u32 \<Rightarrow> imx585_mode option" where
  "v4l2_find_nearest_size [] w h = None"
| "v4l2_find_nearest_size (m # ms) w h =
     (case v4l2_find_nearest_size ms w h of
        None \<Rightarrow> Some m
      | Some b \<Rightarrow> if size_error m w h \<le> size_error b w h then Some m else Some b)"

text \<open>
  Colorimetry defaults of \<open>uapi/linux/videodev2.h\<close>, restricted to the two colorspaces
  that occur here (the zero value and raw).
\<close>

definition V4L2_MAP_YCBCR_ENC_DEFAULT :: "v4l2_colorspace \<Rightarrow> v4l2_ycbcr_encoding" where
  "V4L2_MAP_YCBCR_ENC_DEFAULT colsp = V4L2_YCBCR_ENC_601"

definition V4L2_MAP_QUANTIZATION_DEFAULT ::
  "bool \<Rightarrow> v4l2_colorspace \<Rightarrow> v4l2_ycbcr_encoding \<Rightarrow> v4l2_quantization" where
  "V4L2_MAP_QUANTIZATION_DEFAULT is_rgb_or_hsv colsp enc =
     (if is_rgb_or_hsv then V4L2_QUANTIZATION_FULL_RANGE else V4L2_QUANTIZATION_LIM_RANGE)"

definition V4L2_MAP_XFER_FUNC_DEFAULT :: "v4l2_colorspace \<Rightarrow> v4l2_xfer_func" where
  "V4L2_MAP_XFER_FUNC_DEFAULT colsp =
     (if colsp = V4L2_COLORSPACE_RAW then V4L2_XFER_FUNC_NONE else V4L2_XFER_FUNC_709)"

text \<open>The search loop of \<open>imx585_set_fmt\<close> over the format catalog, entered with \<open>i = 0\<close>.\<close>

function imx585_find_format :: "imx585_pixfmt list \<Rightarrow> u32 \<Rightarrow> nat \<Rightarrow> nat" where
  "imx585_find_format fs c i =
     (if i < IMX585_NUM_FORMATS then
        (if imx585_pixfmt.code (fs ! i) = c then i else imx585_find_format fs c (Suc i))
      else i)"
  by pat_completeness auto
termination
  by (relation "measure (\<lambda>(fs, c, i). IMX585_NUM_FORMATS - i)") auto

declare imx585_find_format.simps [simp del]

text \<open>
  \<open>imx585_set_fmt\<close> returns its C result, the instance, the try state and the format
  handed back to the caller. The try format of the pad lives in the try state; asking for
  it with no try state faults.
\<close>

definition imx585_set_fmt ::
  "imx585 \<Rightarrow> v4l2_subdev_state option \<Rightarrow> v4l2_subdev_format \<Rightarrow>
   (int \<times> imx585 \<times> v4l2_subdev_state option \<times> v4l2_subdev_format) option" where
  "imx585_set_fmt s sd_state fmt =
     (case v4l2_find_nearest_size imx585_modes
             (v4l2_mbus_framefmt.width (format fmt)) (v4l2_mbus_framefmt.height (format fmt)) of
        None \<Rightarrow> None
      | Some mode \<Rightarrow>
          (let i0 = imx585_find_format (formats s) (v4l2_mbus_framefmt.code (format fmt)) 0;
               i = (if i0 \<ge> IMX585_NUM_FORMATS then 0 else i0);
               f = (format fmt)
                     \<lparr>v4l2_mbus_framefmt.width := imx585_mode.width mode,
                      v4l2_mbus_framefmt.height := imx585_mode.height mode,
                      v4l2_mbus_framefmt.code := imx585_pixfmt.code (formats s ! i),
                      field := V4L2_FIELD_NONE,
                      colorspace := V4L2_COLORSPACE_RAW,
                      ycbcr_enc := V4L2_MAP_YCBCR_ENC_DEFAULT V4L2_COLORSPACE_RAW,
                      quantization := V4L2_MAP_QUANTIZATION_DEFAULT True V4L2_COLORSPACE_RAW
                                        (V4L2_MAP_YCBCR_ENC_DEFAULT V4L2_COLORSPACE_RAW),
                      xfer_func := V4L2_MAP_XFER_FUNC_DEFAULT V4L2_COLORSPACE_RAW\<rparr>;
               fmt' = fmt\<lparr>format := f\<rparr>
           in if which fmt = V4L2_SUBDEV_FORMAT_TRY then
                (case sd_state of
                   None \<Rightarrow> None
                 | Some st \<Rightarrow> Some (0, s, Some (st\<lparr>try_fmt := f\<rparr>), fmt'))
              else
                (let s1 = s\<lparr>current_mode := Some mode,
                            imx585.bpp := imx585_pixfmt.bpp (formats s ! i)\<rparr>;
                     s2 = (case pixel_rate s1 of
                             None \<Rightarrow> s1
                           | Some pr \<Rightarrow>
                               s1\<lparr>pixel_rate :=
                                    Some (v4l2_ctrl_s_ctrl pr (imx585_calc_pixel_rate s1))\<rparr>);
                     s3 = (case hblank s2 of
                             None \<Rightarrow> s2
                           | Some hb \<Rightarrow>
                               (let mn = uint (hmax mode - imx585_mode.width mode);
                                    mx = uint (IMX585_HMAX_MAX - imx585_mode.width mode)
                                in (range_modified s2 hb mn mx 1 mn)
                                     \<lparr>hblank := Some (v4l2_ctrl_s_ctrl
                                          (v4l2_ctrl_modify_range hb mn mx 1 mn)
                                          (sint (hmax mode - imx585_mode.width mode)))\<rparr>));
                     s4 = (case vblank s3 of
                             None \<Rightarrow> s3
                           | Some vb \<Rightarrow>
                               (let mn = uint (vmax mode - imx585_mode.height mode);
                                    mx = uint (IMX585_VMAX_MAX - imx585_mode.height mode)
                                in (range_modified s3 vb mn mx 1 mn)
                                     \<lparr>vblank := Some (v4l2_ctrl_s_ctrl
                                          (v4l2_ctrl_modify_range vb mn mx 1 mn)
                                          (sint (vmax mode - imx585_mode.height mode)))\<rparr>));
                     s5 = (case exposure s4 of
                             None \<Rightarrow> s4
                           | Some ex \<Rightarrow>
                               (let mx = uint (vmax mode - 2)
                                in (range_modified s4 ex (uint IMX585_EXPOSURE_MIN) mx
                                      IMX585_EXPOSURE_STEP mx)
                                     \<lparr>exposure := Some (v4l2_ctrl_modify_range ex
                                          (uint IMX585_EXPOSURE_MIN) mx IMX585_EXPOSURE_STEP mx)\<rparr>))
                 in Some (0, s5\<lparr>current_format := f\<rparr>, sd_state, fmt'))))"

definition zero_framefmt :: v4l2_mbus_framefmt where
  "zero_framefmt =
     \<lparr>v4l2_mbus_framefmt.width = 0, v4l2_mbus_framefmt.height = 0,
      v4l2_mbus_framefmt.code = 0, field = V4L2_FIELD_ANY,
      colorspace = V4L2_COLORSPACE_DEFAULT, ycbcr_enc = V4L2_YCBCR_ENC_DEFAULT,
      quantization = V4L2_QUANTIZATION_DEFAULT, xfer_func = V4L2_XFER_FUNC_DEFAULT\<rparr>"

definition imx585_entity_init_cfg ::
  "imx585 \<Rightarrow> v4l2_subdev_state option \<Rightarrow> (int \<times> imx585 \<times> v4l2_subdev_state option) option" where
  "imx585_entity_init_cfg s sd_state =
     (let fmt = \<lparr>which = (if sd_state \<noteq> None then V4L2_SUBDEV_FORMAT_TRY
                           else V4L2_SUBDEV_FORMAT_ACTIVE),
                  pad = 0,
                  format = zero_framefmt\<lparr>v4l2_mbus_framefmt.width := 1936,
                                          v4l2_mbus_framefmt.height := 1100\<rparr>\<rparr>
      in case imx585_set_fmt s sd_state fmt of
           None \<Rightarrow> None
         | Some (ret, s1, sd_state1, fmt1) \<Rightarrow> Some (0, s1, sd_state1))"

definition imx585_write_current_format :: "imx585 \<Rightarrow> int \<times> imx585" where
  "imx585_write_current_format s =
     (let c = v4l2_mbus_framefmt.code (current_format s)
      in if c = MEDIA_BUS_FMT_SRGGB10_1X10 \<or> c = MEDIA_BUS_FMT_Y10_1X10
            \<or> c = MEDIA_BUS_FMT_SRGGB12_1X12 \<or> c = MEDIA_BUS_FMT_Y12_1X12 then
           (let ad_md_bit = (if c = MEDIA_BUS_FMT_SRGGB10_1X10 \<or> c = MEDIA_BUS_FMT_Y10_1X10
                             then 0x00 else 0x01)
            in case imx585_write_reg s IMX585_ADBIT ad_md_bit of (ret, s1) \<Rightarrow>
                 if ret < 0 then (ret, s1)
                 else
                   (case imx585_write_reg s1 IMX585_MDBIT ad_md_bit of (ret, s2) \<Rightarrow>
                      if ret < 0 then (ret, s2) else (0, s2)))
         else (- EINVAL, dev_err s ''Unknown pixel format'' []))"

definition imx585_get_pad_crop ::
  "imx585 \<Rightarrow> v4l2_subdev_state option \<Rightarrow> nat \<Rightarrow> v4l2_subdev_format_whence \<Rightarrow>
   v4l2_rect option" where
  "imx585_get_pad_crop s sd_state p w =
     (case w of
        V4L2_SUBDEV_FORMAT_TRY \<Rightarrow>
          (case sd_state of None \<Rightarrow> None | Some st \<Rightarrow> Some (try_crop st))
      | V4L2_SUBDEV_FORMAT_ACTIVE \<Rightarrow>
          (case current_mode s of None \<Rightarrow> None | Some mode \<Rightarrow> Some (crop mode)))"

definition imx585_get_selection ::
  "imx585 \<Rightarrow> v4l2_subdev_state option \<Rightarrow> v4l2_subdev_selection \<Rightarrow>
   (int \<times> v4l2_subdev_selection) option" where
  "imx585_get_selection s sd_state sel =
     (case target sel of
        V4L2_SEL_TGT_CROP \<Rightarrow>
          (case imx585_get_pad_crop s sd_state (sel_pad sel) (sel_which sel) of
             None \<Rightarrow> None
           | Some rect \<Rightarrow> Some (0, sel\<lparr>r := rect\<rparr>))
      | V4L2_SEL_TGT_NATIVE_SIZE \<Rightarrow>
          Some (0, sel\<lparr>r := (r sel)\<lparr>top := 0, left := 0,
                                      v4l2_rect.width := IMX585_NATIVE_WIDTH,
                                      v4l2_rect.height := IMX585_NATIVE_HEIGHT\<rparr>\<rparr>)
      | V4L2_SEL_TGT_CROP_DEFAULT \<Rightarrow>
          Some (0, sel\<lparr>r := (r sel)\<lparr>top := uint IMX585_PIXEL_ARRAY_TOP,
                                      left := uint IMX585_PIXEL_ARRAY_LEFT,
                                      v4l2_rect.width := IMX585_PIXEL_ARRAY_WIDTH,
                                      v4l2_rect.height := IMX585_PIXEL_ARRAY_HEIGHT\<rparr>\<rparr>)
      | V4L2_SEL_TGT_CROP_BOUNDS \<Rightarrow>
          Some (0, sel\<lparr>r := (r sel)\<lparr>top := uint IMX585_PIXEL_ARRAY_TOP,
                                      left := uint IMX585_PIXEL_ARRAY_LEFT,
                                      v4l2_rect.width := IMX585_PIXEL_ARRAY_WIDTH,
                                      v4l2_rect.height := IMX585_PIXEL_ARRAY_HEIGHT\<rparr>\<rparr>)
      | _ \<Rightarrow> Some (- EINVAL, sel))"


subsection \<open>Streaming\<close>

definition imx585_start_streaming :: "imx585 \<Rightarrow> (int \<times> imx585) option" where
  "imx585_start_streaming s =
     (case imx585_set_register_array s imx585_global_settings of (ret, s1) \<Rightarrow>
      if ret < 0 then Some (ret, dev_err s1 ''Could not set init registers'' [])
      else
     (case imx585_write_reg (pr_err s1 ''write INCK_SEL with %02x'' [uint (inck_sel s1)])
             IMX585_INCK_SEL (inck_sel s1) of (ret, s2) \<Rightarrow>
      if ret < 0 then Some (ret, s2)
      else
     (case imx585_write_current_format s2 of (ret, s3) \<Rightarrow>
      if ret < 0 then Some (ret, dev_err s3 ''Could not set frame format'' [])
      else
     (case current_mode s3 of None \<Rightarrow> None | Some mode \<Rightarrow>
     (case imx585_set_register_array s3 (mode_data mode) of (ret, s4) \<Rightarrow>
      if ret < 0 then Some (ret, dev_err s4 ''Could not set current mode'' [])
      else
     (case imx585_write_reg s4 IMX585_CSI_LANE_MODE (if nlanes s4 = 2 then 0x01 else 0x03) of
        (ret, s5) \<Rightarrow>
      if ret < 0 then Some (ret, s5)
      else
     (case imx585_write_reg s5 IMX585_LANE_RATE
             (if nlanes s5 = 2 then IMX585_LANE_RATE_1188 else IMX585_LANE_RATE_594) of
        (ret, s6) \<Rightarrow>
      if ret < 0 then Some (ret, s6)
      else
     (case v4l2_ctrl_handler_setup s6 of None \<Rightarrow> None | Some (ret, s7) \<Rightarrow>
      if ret \<noteq> 0 then Some (ret, dev_err s7 ''Could not sync v4l2 controls'' [])
      else
     (case imx585_write_reg s7 IMX585_STANDBY 0x00 of (ret, s8) \<Rightarrow>
      if ret < 0 then Some (ret, s8)
      else Some (imx585_write_reg (msleep s8 30) IMX585_XMSTA 0x00))))))))))"

definition imx585_set_stream :: "imx585 \<Rightarrow> int \<Rightarrow> (int \<times> imx585) option" where
  "imx585_set_stream s enable =
     (if enable \<noteq> 0 then
        (case pm_runtime_resume_and_get s of (ret, s1) \<Rightarrow>
           if ret < 0 then Some (ret, s1)
           else
             (case imx585_start_streaming s1 of
                None \<Rightarrow> None
              | Some (ret, s2) \<Rightarrow>
                  if ret \<noteq> 0 then
                    Some (ret, pm_runtime_put (dev_err s2 ''Start stream failed'' []))
                  else
                    Some (ret, s2\<lparr>vflip := v4l2_ctrl_grab (vflip s2) True,
                                   hflip := v4l2_ctrl_grab (hflip s2) True\<rparr>)))
      else
        (case imx585_stop_streaming s of (ret_stop, s1) \<Rightarrow>
           (let s2 = pm_runtime_put s1
            in Some (0, s2\<lparr>vflip := v4l2_ctrl_grab (vflip s2) False,
                           hflip := v4l2_ctrl_grab (hflip s2) False\<rparr>))))"


subsection \<open>Device attach\<close>

text \<open>
  What \<open>imx585_probe\<close> is handed by the platform: the outcome of every call it makes into
  the kernel (a return code, 0 for success, or the object obtained) and the firmware
  description of the device. Log lines of a failing attach are not recorded, since the
  instance is released with it.
\<close>

record imx585_platform =
  kzalloc_ok :: bool
  regmap_init :: "(event list \<Rightarrow> u16 \<Rightarrow> u8 \<Rightarrow> nat) option"
  of_match :: "imx585_pixfmt list option"
  endpoint_found :: bool
  endpoint_parse :: int
  num_data_lanes :: u8
  link_frequencies :: "int list"
  xclk_get :: int
  clock_frequency_read :: int
  clock_frequency :: u32
  clk_set_rate :: int
  regulators_get :: int
  rst_gpio_get :: int
  fwnode_device_parse :: int
  fwnode_properties :: int
  ctrls_error :: int
  pads_init :: int
  async_register :: int
  clk_prepare_enable :: int
  regulator_bulk_enable :: int
  runtime_pm :: "event list \<Rightarrow> nat"

definition imx585_link_freqs_ptr :: "imx585 \<Rightarrow> int list" where
  "imx585_link_freqs_ptr s =
     (if nlanes s = 2 then imx585_link_freq_2lanes else imx585_link_freq_4lanes)"

definition imx585_link_freqs_num :: "imx585 \<Rightarrow> int" where
  "imx585_link_freqs_num s =
     (if nlanes s = 2 then int (length imx585_link_freq_2lanes)
      else int (length imx585_link_freq_4lanes))"

text \<open>The outer loop of \<open>imx585_check_link_freqs\<close>; the inner loop is a membership test.\<close>

fun imx585_check_link_freqs_loop :: "int list \<Rightarrow> int list \<Rightarrow> int" where
  "imx585_check_link_freqs_loop [] ep_freqs = 0"
| "imx585_check_link_freqs_loop (f # freqs) ep_freqs =
     (if f \<in> set ep_freqs then imx585_check_link_freqs_loop freqs ep_freqs else f)"

definition imx585_check_link_freqs :: "imx585 \<Rightarrow> int list \<Rightarrow> int" where
  "imx585_check_link_freqs s ep_freqs =
     imx585_check_link_freqs_loop (imx585_link_freqs_ptr s) ep_freqs"

definition imx585_power_on :: "imx585_platform \<Rightarrow> imx585 \<Rightarrow> int \<times> imx585" where
  "imx585_power_on env s =
     (if clk_prepare_enable env \<noteq> 0 then
        (clk_prepare_enable env, dev_err s ''Failed to enable clock'' [])
      else if regulator_bulk_enable env \<noteq> 0 then
        (regulator_bulk_enable env, dev_err s ''Failed to enable regulators'' [])
      else (0, usleep_range (usleep_range s 1 2) 30000 31000))"

text \<open>
  Modelled from the spec: \<open>v4l2_ctrl_new_int_menu\<close> is the framework's. Spec 6: the link
  frequency is an enumerated value, indexed from 0 up to the given maximum.
\<close>

definition v4l2_ctrl_new_int_menu :: "v4l2_cid \<Rightarrow> int \<Rightarrow> int \<Rightarrow> v4l2_ctrl" where
  "v4l2_ctrl_new_int_menu i mx df =
     \<lparr>cid = i, minimum = 0, maximum = mx, step = 1, default_value = df, val = df,
      read_only = False, grabbed = False\<rparr>"

definition INT_MAX :: int where "INT_MAX = 2147483647"

text \<open>The zero-filled instance that \<open>devm_kzalloc\<close> hands out.\<close>

definition devm_kzalloc :: imx585 where
  "devm_kzalloc =
     \<lparr>inck_sel = 0, regmap = (\<lambda>tr a v. 0), nlanes = 0, imx585.bpp = 0, formats = [],
      current_format = zero_framefmt, current_mode = None, ctrls = [], gain = None,
      link_freq = None, pixel_rate = None, hblank = None, vblank = None, hflip = None,
      vflip = None, exposure = None, trace = [], pm_usage = 0, pm_resume = (\<lambda>tr. 0)\<rparr>"

text \<open>The control creation block of \<open>imx585_probe\<close>, in the order of the source.\<close>

definition imx585_probe_ctrls :: "imx585 \<Rightarrow> imx585_mode \<Rightarrow> imx585" where
  "imx585_probe_ctrls s mode =
     (let s1 = s\<lparr>ctrls := [], gain := Some (v4l2_ctrl_new_std V4L2_CID_ANALOGUE_GAIN 0 100 1 0)\<rparr>;
          s2 = s1\<lparr>hblank := Some (v4l2_ctrl_new_std V4L2_CID_HBLANK
                   (uint (hmax mode - imx585_mode.width mode))
                   (uint (IMX585_HMAX_MAX - imx585_mode.width mode)) 1
                   (uint (hmax mode - imx585_mode.width mode)))\<rparr>;
          s3 = s2\<lparr>vblank := Some (v4l2_ctrl_new_std V4L2_CID_VBLANK
                   (uint (vmax mode - imx585_mode.height mode))
                   (uint (IMX585_VMAX_MAX - imx585_mode.height mode)) 1
                   (uint (vmax mode - imx585_mode.height mode)))\<rparr>;
          s4 = s3\<lparr>exposure := Some (v4l2_ctrl_new_std V4L2_CID_EXPOSURE
                   (uint IMX585_EXPOSURE_MIN) (uint (vmax mode - 2)) IMX585_EXPOSURE_STEP
                   (uint (vmax mode - 2)))\<rparr>;
          s5 = s4\<lparr>hflip := Some (v4l2_ctrl_new_std V4L2_CID_HFLIP 0 1 1 0)\<rparr>;
          s6 = s5\<lparr>vflip := Some (v4l2_ctrl_new_std V4L2_CID_VFLIP 0 1 1 0)\<rparr>;
          s7 = s6\<lparr>link_freq := Some ((v4l2_ctrl_new_int_menu V4L2_CID_LINK_FREQ
                   (imx585_link_freqs_num s6 - 1) 0)\<lparr>read_only := True\<rparr>)\<rparr>;
          s8 = s7\<lparr>pixel_rate := Some (v4l2_ctrl_new_std V4L2_CID_PIXEL_RATE 1 INT_MAX 1
                   (imx585_calc_pixel_rate s7))\<rparr>
      in s8\<lparr>ctrls := [V4L2_CID_ANALOGUE_GAIN, V4L2_CID_HBLANK, V4L2_CID_VBLANK,
                       V4L2_CID_EXPOSURE, V4L2_CID_HFLIP, V4L2_CID_VFLIP, V4L2_CID_LINK_FREQ,
                       V4L2_CID_PIXEL_RATE]\<rparr>)"

text \<open>
  \<open>imx585_probe\<close>: \<open>Inl\<close> carries the error it returns, \<open>Inr\<close> the attached instance (the C
  function returns 0 then).
\<close>

definition imx585_probe :: "imx585_platform \<Rightarrow> (int + imx585) option" where
  "imx585_probe env =
     (if \<not> kzalloc_ok env then Some (Inl (- ENOMEM))
      else case regmap_init env of None \<Rightarrow> Some (Inl (- ENODEV)) | Some bus \<Rightarrow>
      (case of_match env of None \<Rightarrow> Some (Inl (- ENODEV)) | Some match_data \<Rightarrow>
      (let s0 = devm_kzalloc\<lparr>regmap := bus, formats := match_data, pm_resume := runtime_pm env\<rparr>
       in
       if \<not> endpoint_found env then Some (Inl (- EINVAL))
       else if endpoint_parse env \<noteq> 0 then Some (Inl (endpoint_parse env))
       else
        (let s1 = s0\<lparr>nlanes := num_data_lanes env\<rparr>
         in
         if nlanes s1 \<noteq> 2 \<and> nlanes s1 \<noteq> 4 then Some (Inl (- EINVAL))
         else if length (link_frequencies env) = 0 then Some (Inl (- EINVAL))
         else if imx585_check_link_freqs s1 (link_frequencies env) \<noteq> 0 then Some (Inl (- EINVAL))
         else if xclk_get env \<noteq> 0 then Some (Inl (xclk_get env))
         else if clock_frequency_read env \<noteq> 0 then Some (Inl (clock_frequency_read env))
         else
          (case (if clock_frequency env = 74250000 then Some IMX585_INCK_SEL_74_25
                 else if clock_frequency env = 37125000 then Some IMX585_INCK_SEL_37_125
                 else if clock_frequency env = 72000000 then Some IMX585_INCK_SEL_72
                 else if clock_frequency env = 27000000 then Some IMX585_INCK_SEL_27
                 else if clock_frequency env = 24000000 then Some IMX585_INCK_SEL_24
                 else None) of
             None \<Rightarrow> Some (Inl (- EINVAL))
           | Some sel \<Rightarrow>
              (let s2 = s1\<lparr>inck_sel := sel\<rparr>
               in
               if clk_set_rate env \<noteq> 0 then Some (Inl (clk_set_rate env))
               else if regulators_get env < 0 then Some (Inl (regulators_get env))
               else if rst_gpio_get env \<noteq> 0 then Some (Inl (rst_gpio_get env))
               else
                (case imx585_entity_init_cfg s2 None of None \<Rightarrow> None
                 | Some (ret3, s3, st3) \<Rightarrow>
                  (case current_mode s3 of None \<Rightarrow> None | Some mode \<Rightarrow>
                   (let s4 = imx585_probe_ctrls s3 mode
                    in
                    if fwnode_device_parse env \<noteq> 0 then Some (Inl (fwnode_device_parse env))
                    else if fwnode_properties env \<noteq> 0 then Some (Inl (fwnode_properties env))
                    else if ctrls_error env \<noteq> 0 then Some (Inl (ctrls_error env))
                    else if pads_init env < 0 then Some (Inl (pads_init env))
                    else
                     (case imx585_entity_init_cfg s4 None of None \<Rightarrow> None
                      | Some (ret5, s5, st5) \<Rightarrow>
                         if async_register env < 0 then Some (Inl (async_register env))
                         else
                          (case imx585_power_on env s5 of (ret, s6) \<Rightarrow>
                             if ret < 0 then Some (Inl ret) else Some (Inr s6))))))))))))"


subsection \<open>Vocabulary of the properties\<close>

text \<open>
  A register program is accepted from a given history when the bus answers 0 to each of
  its writes, issued one after the other.
\<close>

fun program_accepted ::
  "(event list \<Rightarrow> u16 \<Rightarrow> u8 \<Rightarrow> nat) \<Rightarrow> event list \<Rightarrow> imx585_regval list \<Rightarrow> bool" where
  "program_accepted bus tr [] = True"
| "program_accepted bus tr ((a, v) # xs) =
     (bus tr a v = 0 \<and> program_accepted bus (tr @ [Regmap_write a v 0]) xs)"

definition written :: "imx585_regval list \<Rightarrow> event list" where
  "written xs = map (\<lambda>(a, v). Regmap_write a v 0) xs"

definition bus_ok :: "imx585 \<Rightarrow> bool" where
  "bus_ok s \<longleftrightarrow> (\<forall>tr a v. regmap s tr a v = 0)"

text \<open>Bytes \<open>i\<close> up to \<open>k - 1\<close> of a value, little-endian, at consecutive addresses.\<close>

definition buffered_bytes :: "u16 \<Rightarrow> u32 \<Rightarrow> nat \<Rightarrow> nat \<Rightarrow> imx585_regval list" where
  "buffered_bytes a v i k = map (\<lambda>j. (a + of_nat j, ucast (drop_bit (j * 8) v))) [i..<k]"

text \<open>The hold protocol of spec 4.2 as a register program: set the latch, the bytes, release.\<close>

definition buffered_write :: "u16 \<Rightarrow> nat \<Rightarrow> u32 \<Rightarrow> imx585_regval list" where
  "buffered_write a n v = (IMX585_REGHOLD, 1) # buffered_bytes a v 0 n @ [(IMX585_REGHOLD, 0)]"

text \<open>
  The sequencing of spec 4.5, following the spec's words: steps run in the listed order,
  and the first step that reports a failure ends the sequence with that failure.
\<close>

type_synonym step = "imx585 \<Rightarrow> (int \<times> imx585) option"

fun run_steps :: "step list \<Rightarrow> imx585 \<Rightarrow> (int \<times> imx585) option" where
  "run_steps [] s = Some (0, s)"
| "run_steps (f # fs) s =
     (case f s of
        None \<Rightarrow> None
      | Some (ret, s1) \<Rightarrow> if ret \<noteq> 0 then Some (ret, s1) else run_steps fs s1)"

definition step_global_defaults :: step where
  "step_global_defaults s =
     (case imx585_set_register_array s imx585_global_settings of (ret, s1) \<Rightarrow>
        Some (ret, if ret \<noteq> 0 then dev_err s1 ''Could not set init registers'' [] else s1))"

definition step_clock_select :: step where
  "step_clock_select s =
     Some (imx585_write_reg (pr_err s ''write INCK_SEL with %02x'' [uint (inck_sel s)])
             IMX585_INCK_SEL (inck_sel s))"

definition step_bit_depth :: step where
  "step_bit_depth s =
     (case imx585_write_current_format s of (ret, s1) \<Rightarrow>
        Some (ret, if ret \<noteq> 0 then dev_err s1 ''Could not set frame format'' [] else s1))"

definition step_mode_program :: step where
  "step_mode_program s =
     (case current_mode s of
        None \<Rightarrow> None
      | Some mode \<Rightarrow>
          (case imx585_set_register_array s (mode_data mode) of (ret, s1) \<Rightarrow>
             Some (ret, if ret \<noteq> 0 then dev_err s1 ''Could not set current mode'' [] else s1)))"

definition step_lane_count :: step where
  "step_lane_count s =
     Some (imx585_write_reg s IMX585_CSI_LANE_MODE (if nlanes s = 2 then 0x01 else 0x03))"

definition step_lane_rate :: step where
  "step_lane_rate s =
     Some (imx585_write_reg s IMX585_LANE_RATE
             (if nlanes s = 2 then IMX585_LANE_RATE_1188 else IMX585_LANE_RATE_594))"

definition step_control_replay :: step where
  "step_control_replay s =
     (case v4l2_ctrl_handler_setup s of
        None \<Rightarrow> None
      | Some (ret, s1) \<Rightarrow>
          Some (ret, if ret \<noteq> 0 then dev_err s1 ''Could not sync v4l2 controls'' [] else s1))"

definition step_standby_clear :: step where
  "step_standby_clear s =
     (case imx585_write_reg s IMX585_STANDBY 0x00 of (ret, s1) \<Rightarrow>
        Some (ret, if ret \<noteq> 0 then s1 else msleep s1 30))"

definition step_master_start :: step where
  "step_master_start s = Some (imx585_write_reg s IMX585_XMSTA 0x00)"

definition start_steps :: "step list" where
  "start_steps =
     [step_global_defaults, step_clock_select, step_bit_depth, step_mode_program,
      step_lane_count, step_lane_rate, step_control_replay, step_standby_clear,
      step_master_start]"

subsection \<open>A concrete device\<close>

text \<open>
  A colour sensor on two lanes with a 24 MHz clock, every platform call succeeding, and
  the instance that \<open>imx585_probe\<close> builds for it. \<open>bus_failing_at a e\<close> is a bus that
  refuses every write to address \<open>a\<close> with errno \<open>e\<close> and accepts all others.
\<close>

definition EIO :: nat where "EIO = 5"

definition bus_failing_at :: "u16 \<Rightarrow> nat \<Rightarrow> event list \<Rightarrow> u16 \<Rightarrow> u8 \<Rightarrow> nat" where
  "bus_failing_at a e tr b v = (if b = a then e else 0)"

text \<open>
  A bus with one transient fault: it refuses the first write to address \<open>a\<close> with errno
  \<open>e\<close> and accepts every other write, later writes to \<open>a\<close> included.
\<close>

fun is_write_to :: "u16 \<Rightarrow> event \<Rightarrow> bool" where
  "is_write_to a (Regmap_write b v ret) = (b = a)"
| "is_write_to a ev = False"

fun written_before :: "u16 \<Rightarrow> event list \<Rightarrow> bool" where
  "written_before a [] = False"
| "written_before a (ev # tr) = (is_write_to a ev \<or> written_before a tr)"

definition bus_refusing_first :: "u16 \<Rightarrow> nat \<Rightarrow> event list \<Rightarrow> u16 \<Rightarrow> u8 \<Rightarrow> nat" where
  "bus_refusing_first a e tr b v = (if b = a \<and> \<not> written_before a tr then e else 0)"

definition platform_2lane_colour :: imx585_platform where
  "platform_2lane_colour =
     \<lparr>kzalloc_ok = True, regmap_init = Some (\<lambda>tr a v. 0),
      of_match = Some imx585_colour_formats, endpoint_found = True, endpoint_parse = 0,
      num_data_lanes = 2, link_frequencies = [594000000], xclk_get = 0,
      clock_frequency_read = 0, clock_frequency = 24000000, clk_set_rate = 0,
      regulators_get = 0, rst_gpio_get = 0, fwnode_device_parse = 0, fwnode_properties = 0,
      ctrls_error = 0, pads_init = 0, async_register = 0, clk_prepare_enable = 0,
      regulator_bulk_enable = 0, runtime_pm = (\<lambda>tr. 0)\<rparr>"


definition attached_2lane_colour :: imx585 where
  "attached_2lane_colour =
     \<lparr>inck_sel = IMX585_INCK_SEL_24, regmap = (\<lambda>tr a v. 0), nlanes = 2, imx585.bpp = 10,
      formats = imx585_colour_formats,
      current_format =
        \<lparr>v4l2_mbus_framefmt.width = 3856, v4l2_mbus_framefmt.height = 2180,
         v4l2_mbus_framefmt.code = MEDIA_BUS_FMT_SRGGB10_1X10, field = V4L2_FIELD_NONE,
         colorspace = V4L2_COLORSPACE_RAW, ycbcr_enc = V4L2_YCBCR_ENC_601,
         quantization = V4L2_QUANTIZATION_FULL_RANGE, xfer_func = V4L2_XFER_FUNC_NONE\<rparr>,
      current_mode = Some (hd imx585_modes),
      ctrls = [V4L2_CID_ANALOGUE_GAIN, V4L2_CID_HBLANK, V4L2_CID_VBLANK, V4L2_CID_EXPOSURE,
               V4L2_CID_HFLIP, V4L2_CID_VFLIP, V4L2_CID_LINK_FREQ, V4L2_CID_PIXEL_RATE],
      gain = Some (v4l2_ctrl_new_std V4L2_CID_ANALOGUE_GAIN 0 100 1 0),
      link_freq = Some ((v4l2_ctrl_new_int_menu V4L2_CID_LINK_FREQ 0 0)\<lparr>read_only := True\<rparr>),
      pixel_rate = Some (v4l2_ctrl_new_std V4L2_CID_PIXEL_RATE 1 INT_MAX 1 148500000),
      hblank = Some (v4l2_ctrl_new_std V4L2_CID_HBLANK 4032 61679 1 4032),
      vblank = Some (v4l2_ctrl_new_std V4L2_CID_VBLANK 70 1046395 1 70),
      hflip = Some (v4l2_ctrl_new_std V4L2_CID_HFLIP 0 1 1 0),
      vflip = Some (v4l2_ctrl_new_std V4L2_CID_VFLIP 0 1 1 0),
      exposure = Some (v4l2_ctrl_new_std V4L2_CID_EXPOSURE 8 2248 2 2248),
      trace = [Ctrl_modify_range V4L2_CID_HBLANK 4032 61679 1 4032,
               Ctrl_modify_range V4L2_CID_VBLANK 70 1046395 1 70,
               Ctrl_modify_range V4L2_CID_EXPOSURE 8 2248 2 2248,
               Usleep_range 1 2, Usleep_range 30000 31000],
      pm_usage = 0, pm_resume = (\<lambda>tr. 0)\<rparr>"


section \<open>Properties\<close>

subsection \<open>Single register writes\<close>

lemma written_simps [simp]:
  "written [] = []"
  "written ((a, v) # xs) = Regmap_write a v 0 # written xs"
  "written (xs @ ys) = written xs @ written ys"
  by (simp_all add: written_def)

lemma program_accepted_append:
  "program_accepted bus tr (xs @ ys) \<longleftrightarrow>
   program_accepted bus tr xs \<and> program_accepted bus (tr @ written xs) ys"
  by (induction xs arbitrary: tr) auto

lemma bus_ok_accepted: "bus_ok s \<Longrightarrow> program_accepted (regmap s) tr xs"
  by (induction xs arbitrary: tr) (auto simp: bus_ok_def)

lemma bus_ok_updates [simp]:
  "bus_ok (s\<lparr>trace := t\<rparr>) = bus_ok s"
  "bus_ok (s\<lparr>exposure := e\<rparr>) = bus_ok s"
  "bus_ok (s\<lparr>pm_usage := n\<rparr>) = bus_ok s"
  by (simp_all add: bus_ok_def)

lemma imx585_write_reg_ok:
  "regmap s (trace s) a v = 0 \<Longrightarrow>
   imx585_write_reg s a v = (0, s\<lparr>trace := trace s @ [Regmap_write a v 0]\<rparr>)"
  by (simp add: imx585_write_reg_def regmap_write_def)

lemma imx585_write_reg_fail:
  "regmap s (trace s) a v = e \<Longrightarrow> e \<noteq> 0 \<Longrightarrow>
   imx585_write_reg s a v =
     (- int e, s\<lparr>trace := trace s @ [Regmap_write a v (- int e),
                     Dev_err ''I2C write failed for addr: %x'' [uint a]]\<rparr>)"
  by (simp add: imx585_write_reg_def regmap_write_def dev_err_def Let_def)

lemma imx585_write_reg_nonpos: "fst (imx585_write_reg s a v) \<le> 0"
  by (simp add: imx585_write_reg_def regmap_write_def Let_def)

subsection \<open>Register program replay\<close>

lemma set_register_array_all:
  "program_accepted (regmap s) (trace s) xs \<Longrightarrow>
   imx585_set_register_array s xs =
     (0, s\<lparr>trace := trace s @ written xs @ [Usleep_range 10000 11000]\<rparr>)"
proof (induction xs arbitrary: s)
  case Nil
  then show ?case by (simp add: usleep_range_def)
next
  case (Cons x xs)
  obtain a v where x: "x = (a, v)" by (cases x)
  let ?s1 = "s\<lparr>trace := trace s @ [Regmap_write a v 0]\<rparr>"
  from Cons.prems x have ok: "regmap s (trace s) a v = 0"
    and rest: "program_accepted (regmap ?s1) (trace ?s1) xs" by simp_all
  from Cons.IH [OF rest] imx585_write_reg_ok [OF ok] x show ?case by simp
qed

lemma set_register_array_abort:
  "program_accepted (regmap s) (trace s) pre \<Longrightarrow>
   regmap s (trace s @ written pre) a v = e \<Longrightarrow> e \<noteq> 0 \<Longrightarrow>
   imx585_set_register_array s (pre @ (a, v) # post) =
     (- int e, s\<lparr>trace := trace s @ written pre @ [Regmap_write a v (- int e),
                     Dev_err ''I2C write failed for addr: %x'' [uint a]]\<rparr>)"
proof (induction pre arbitrary: s)
  case Nil
  then show ?case using imx585_write_reg_fail [of s a v e] by simp
next
  case (Cons x pre)
  obtain b w where x: "x = (b, w)" by (cases x)
  let ?s1 = "s\<lparr>trace := trace s @ [Regmap_write b w 0]\<rparr>"
  from Cons.prems x have ok: "regmap s (trace s) b w = 0"
    and rest: "program_accepted (regmap ?s1) (trace ?s1) pre"
    and bad: "regmap ?s1 (trace ?s1 @ written pre) a v = e" by simp_all
  from Cons.IH [OF rest bad Cons.prems(3)] imx585_write_reg_ok [OF ok] x show ?case by simp
qed

lemma set_register_array_nonpos: "fst (imx585_set_register_array s xs) \<le> 0"
proof (induction xs arbitrary: s)
  case Nil
  then show ?case by simp
next
  case (Cons x xs)
  obtain a v where x: "x = (a, v)" by (cases x)
  obtain r s1 where w: "imx585_write_reg s a v = (r, s1)" by (cases "imx585_write_reg s a v")
  with Cons.IH [of s1] x show ?case by simp
qed

text \<open>
  C7. Replay of a register program writes the entries strictly in list order. When the
  bus accepts every entry, all of them are written, then the driver sleeps for the 10 ms
  settle interval (10000 to 11000 microseconds) and returns 0. When the bus accepts the
  entries of a prefix and refuses the next entry with an errno, that errno is returned
  (negated) at once: the refused write is the last one on the bus, the kernel log names its
  address, no later entry is written, the earlier writes are not undone, and no settle
  sleep happens.
\<close>

theorem set_register_array_replay:
  "(program_accepted (regmap s) (trace s) xs \<longrightarrow>
      imx585_set_register_array s xs =
        (0, s\<lparr>trace := trace s @ written xs @ [Usleep_range 10000 11000]\<rparr>))
   \<and> (program_accepted (regmap s) (trace s) pre \<and>
      regmap s (trace s @ written pre) a v = e \<and> e \<noteq> 0 \<longrightarrow>
      imx585_set_register_array s (pre @ (a, v) # post) =
        (- int e, s\<lparr>trace := trace s @ written pre @ [Regmap_write a v (- int e),
                        Dev_err ''I2C write failed for addr: %x'' [uint a]]\<rparr>))"
  using set_register_array_all [of s xs] set_register_array_abort [of s pre a v e post]
  by blast

theorem set_register_array_replay_witness:
  "program_accepted (regmap (attached_2lane_colour\<lparr>regmap := bus_failing_at IMX585_FR_FDG_SEL2 EIO\<rparr>))
     (trace attached_2lane_colour) [(0x3018, 0x10), (IMX585_FR_FDG_SEL1, 0x00)]
   \<and> imx585_set_register_array
        (attached_2lane_colour\<lparr>regmap := bus_failing_at IMX585_FR_FDG_SEL2 EIO\<rparr>)
        [(0x3018, 0x10), (IMX585_FR_FDG_SEL1, 0x00)] =
      (0, attached_2lane_colour\<lparr>regmap := bus_failing_at IMX585_FR_FDG_SEL2 EIO,
            trace := trace attached_2lane_colour @
              [Regmap_write 0x3018 0x10 0, Regmap_write 0x3031 0x00 0,
               Usleep_range 10000 11000]\<rparr>)
   \<and> imx585_set_register_array
        (attached_2lane_colour\<lparr>regmap := bus_failing_at IMX585_FR_FDG_SEL2 EIO\<rparr>)
        imx585_1080p_common_settings =
      (- 5, attached_2lane_colour\<lparr>regmap := bus_failing_at IMX585_FR_FDG_SEL2 EIO,
            trace := trace attached_2lane_colour @
              [Regmap_write 0x3018 0x10 0, Regmap_write 0x3031 0x00 0,
               Regmap_write 0x3032 0x00 (- 5),
               Dev_err ''I2C write failed for addr: %x'' [0x3032]]\<rparr>)"
  using set_register_array_replay
    [of "attached_2lane_colour\<lparr>regmap := bus_failing_at IMX585_FR_FDG_SEL2 EIO\<rparr>"
        "[(0x3018, 0x10), (IMX585_FR_FDG_SEL1, 0x00)]"
        "[(0x3018, 0x10), (IMX585_FR_FDG_SEL1, 0x00)]" IMX585_FR_FDG_SEL2 "0x00" EIO "[]"]
  by (simp add: bus_failing_at_def IMX585_FR_FDG_SEL1_def IMX585_FR_FDG_SEL2_def EIO_def
      imx585_1080p_common_settings_def)


subsection \<open>Buffered multi-byte writes\<close>

lemma buffered_bytes_rec:
  "i < k \<Longrightarrow> buffered_bytes a v i k =
     (a + of_nat i, ucast (drop_bit (i * 8) v)) # buffered_bytes a v (Suc i) k"
  by (simp add: buffered_bytes_def upt_conv_Cons)

lemma buffered_bytes_empty [simp]: "buffered_bytes a v k k = []"
  by (simp add: buffered_bytes_def)

lemma buffered_write_2:
  "buffered_write a 2 v =
     [(IMX585_REGHOLD, 1), (a, ucast v), (a + 1, ucast (drop_bit 8 v)), (IMX585_REGHOLD, 0)]"
  by (simp add: buffered_write_def buffered_bytes_def numeral_2_eq_2)

lemma buffered_write_3:
  "buffered_write a 3 v =
     [(IMX585_REGHOLD, 1), (a, ucast v), (a + 1, ucast (drop_bit 8 v)),
      (a + 2, ucast (drop_bit 16 v)), (IMX585_REGHOLD, 0)]"
  by (simp add: buffered_write_def buffered_bytes_def numeral_3_eq_3)

lemma write_buffered_bytes_all:
  "i \<le> n \<Longrightarrow> program_accepted (regmap s) (trace s) (buffered_bytes a v i n) \<Longrightarrow>
   imx585_write_buffered_bytes s a n v i =
     (0, s\<lparr>trace := trace s @ written (buffered_bytes a v i n)\<rparr>)"
proof (induction "n - i" arbitrary: i s)
  case 0
  then show ?case by (simp add: imx585_write_buffered_bytes.simps)
next
  case (Suc d)
  then have lt: "i < n" by simp
  let ?b = "ucast (drop_bit (i * 8) v) :: u8"
  let ?s1 = "s\<lparr>trace := trace s @ [Regmap_write (a + of_nat i) ?b 0]\<rparr>"
  from Suc.prems lt have ok: "regmap s (trace s) (a + of_nat i) ?b = 0"
    and rest: "program_accepted (regmap ?s1) (trace ?s1) (buffered_bytes a v (Suc i) n)"
    by (simp_all add: buffered_bytes_rec)
  from Suc.hyps(2) lt have d: "d = n - Suc i" and le: "Suc i \<le> n" by simp_all
  from Suc.hyps(1) [OF d le rest] imx585_write_reg_ok [OF ok] lt show ?case
    by (subst imx585_write_buffered_bytes.simps) (simp add: buffered_bytes_rec)
qed

lemma write_buffered_bytes_abort:
  "i \<le> k \<Longrightarrow> k < n \<Longrightarrow>
   program_accepted (regmap s) (trace s) (buffered_bytes a v i k) \<Longrightarrow>
   regmap s (trace s @ written (buffered_bytes a v i k)) (a + of_nat k)
     (ucast (drop_bit (k * 8) v)) = e \<Longrightarrow> e \<noteq> 0 \<Longrightarrow>
   imx585_write_buffered_bytes s a n v i =
     (- int e, s\<lparr>trace := trace s @ written (buffered_bytes a v i k) @
        [Regmap_write (a + of_nat k) (ucast (drop_bit (k * 8) v)) (- int e),
         Dev_err ''I2C write failed for addr: %x'' [uint (a + of_nat k)],
         Dev_err ''Error writing buffered registers'' []]\<rparr>)"
proof (induction "k - i" arbitrary: i s)
  case 0
  then have ik: "i = k" by simp
  from 0 ik imx585_write_reg_fail [of s "a + of_nat k" "ucast (drop_bit (k * 8) v)" e]
  show ?case
    by (subst imx585_write_buffered_bytes.simps) (simp add: dev_err_def)
next
  case (Suc d)
  then have lt: "i < k" and ltn: "i < n" by simp_all
  let ?b = "ucast (drop_bit (i * 8) v) :: u8"
  let ?s1 = "s\<lparr>trace := trace s @ [Regmap_write (a + of_nat i) ?b 0]\<rparr>"
  from Suc.prems lt have ok: "regmap s (trace s) (a + of_nat i) ?b = 0"
    and rest: "program_accepted (regmap ?s1) (trace ?s1) (buffered_bytes a v (Suc i) k)"
    and bad: "regmap ?s1 (trace ?s1 @ written (buffered_bytes a v (Suc i) k)) (a + of_nat k)
       (ucast (drop_bit (k * 8) v)) = e"
    by (simp_all add: buffered_bytes_rec)
  from Suc.hyps(2) lt have d: "d = k - Suc i" and le: "Suc i \<le> k" by simp_all
  from Suc.hyps(1) [OF d le Suc.prems(2) rest bad Suc.prems(5)] imx585_write_reg_ok [OF ok] lt ltn
  show ?case
    by (subst imx585_write_buffered_bytes.simps) (simp add: buffered_bytes_rec)
qed

lemma write_buffered_reg_all:
  assumes acc: "program_accepted (regmap s) (trace s) (buffered_write a n v)"
  shows "imx585_write_buffered_reg s a n v =
     (0, s\<lparr>trace := trace s @ written (buffered_write a n v)\<rparr>)"
proof -
  let ?s1 = "s\<lparr>trace := trace s @ [Regmap_write IMX585_REGHOLD 1 0]\<rparr>"
  let ?s2 = "?s1\<lparr>trace := trace ?s1 @ written (buffered_bytes a v 0 n)\<rparr>"
  from acc have ok: "regmap s (trace s) IMX585_REGHOLD 1 = 0"
    and rest: "program_accepted (regmap ?s1) (trace ?s1) (buffered_bytes a v 0 n)"
    and rel: "regmap ?s2 (trace ?s2) IMX585_REGHOLD 0 = 0"
    by (simp_all add: buffered_write_def program_accepted_append)
  have "0 \<le> n" by simp
  from write_buffered_bytes_all [OF this rest] imx585_write_reg_ok [OF ok]
    imx585_write_reg_ok [OF rel]
  show ?thesis by (simp add: imx585_write_buffered_reg_def buffered_write_def)
qed

lemma write_buffered_reg_ok:
  "bus_ok s \<Longrightarrow>
   imx585_write_buffered_reg s a n v =
     (0, s\<lparr>trace := trace s @ written (buffered_write a n v)\<rparr>)"
  by (rule write_buffered_reg_all) (rule bus_ok_accepted)

lemma write_buffered_reg_abort:
  assumes k: "k < n"
    and acc: "program_accepted (regmap s) (trace s) ((IMX585_REGHOLD, 1) # buffered_bytes a v 0 k)"
    and bad: "regmap s (trace s @ written ((IMX585_REGHOLD, 1) # buffered_bytes a v 0 k))
       (a + of_nat k) (ucast (drop_bit (k * 8) v)) = e"
    and e: "e \<noteq> 0"
  shows "imx585_write_buffered_reg s a n v =
     (- int e, s\<lparr>trace := trace s @ written ((IMX585_REGHOLD, 1) # buffered_bytes a v 0 k) @
        [Regmap_write (a + of_nat k) (ucast (drop_bit (k * 8) v)) (- int e),
         Dev_err ''I2C write failed for addr: %x'' [uint (a + of_nat k)],
         Dev_err ''Error writing buffered registers'' []]\<rparr>)"
proof -
  let ?s1 = "s\<lparr>trace := trace s @ [Regmap_write IMX585_REGHOLD 1 0]\<rparr>"
  from acc have ok: "regmap s (trace s) IMX585_REGHOLD 1 = 0"
    and rest: "program_accepted (regmap ?s1) (trace ?s1) (buffered_bytes a v 0 k)" by simp_all
  from bad have bad1: "regmap ?s1 (trace ?s1 @ written (buffered_bytes a v 0 k)) (a + of_nat k)
       (ucast (drop_bit (k * 8) v)) = e" by simp
  have "0 \<le> k" by simp
  from write_buffered_bytes_abort [OF this k rest bad1 e] imx585_write_reg_ok [OF ok] e
  show ?thesis by (simp add: imx585_write_buffered_reg_def)
qed

text \<open>
  C2 (evaluation at the failing input). On a bus that accepts the hold-latch write and
  the low byte and refuses the second byte of VMAX, the buffered write of 0x08ca returns
  the failure, as the claim says, but ends right after the refused write: the latch was set
  by the first write and no write of 0 to REGHOLD follows.
\<close>

theorem write_buffered_reg_hold_left_set:
  "imx585_write_buffered_reg (attached_2lane_colour\<lparr>regmap := bus_failing_at 0x3029 EIO\<rparr>)
     IMX585_VMAX 3 0x08ca =
   (- 5, attached_2lane_colour\<lparr>regmap := bus_failing_at 0x3029 EIO,
           trace := trace attached_2lane_colour @
             [Regmap_write IMX585_REGHOLD 1 0,
              Regmap_write 0x3028 0xca 0,
              Regmap_write 0x3029 0x08 (- 5),
              Dev_err ''I2C write failed for addr: %x'' [0x3029],
              Dev_err ''Error writing buffered registers'' []]\<rparr>)"
  using write_buffered_reg_abort
    [of 1 3 "attached_2lane_colour\<lparr>regmap := bus_failing_at 0x3029 EIO\<rparr>" IMX585_VMAX
        "0x08ca" EIO]
  by (simp add: bus_failing_at_def EIO_def IMX585_VMAX_def IMX585_REGHOLD_def
      buffered_bytes_def upt_rec [of 0] upt_rec [of 1])


subsection \<open>Control mapping\<close>

lemma written_buffered_write_2:
  "written (buffered_write a 2 v) =
     [Regmap_write IMX585_REGHOLD 1 0, Regmap_write a (ucast v) 0,
      Regmap_write (a + 1) (ucast (drop_bit 8 v)) 0, Regmap_write IMX585_REGHOLD 0 0]"
  by (simp add: buffered_write_2)

lemma written_buffered_write_3:
  "written (buffered_write a 3 v) =
     [Regmap_write IMX585_REGHOLD 1 0, Regmap_write a (ucast v) 0,
      Regmap_write (a + 1) (ucast (drop_bit 8 v)) 0,
      Regmap_write (a + 2) (ucast (drop_bit 16 v)) 0, Regmap_write IMX585_REGHOLD 0 0]"
  by (simp add: buffered_write_3)

lemma uint_drop_bit_1: "uint (drop_bit 1 (x :: u32)) = uint x div 2"
proof -
  have "unat (drop_bit 1 x) = drop_bit 1 (unat x)"
    by (rule unat_drop_bit_eq)
  also have "\<dots> = unat x div 2"
    by (simp add: drop_bit_eq_div)
  finally have "int (unat (drop_bit 1 x)) = int (unat x) div 2"
    by (simp add: zdiv_int)
  then show ?thesis
    unfolding uint_nat .
qed

lemma set_hmax_ok:
  "current_mode s = Some m \<Longrightarrow> bus_ok s \<Longrightarrow>
   imx585_set_hmax s v =
     Some (0, s\<lparr>trace := trace s @
       written (buffered_write IMX585_HMAX 2 (drop_bit 1 (v + imx585_mode.width m)))\<rparr>)"
  by (simp add: imx585_set_hmax_def write_buffered_reg_ok)

lemma set_exposure_ok:
  "current_mode s = Some m \<Longrightarrow> vblank s = Some vb \<Longrightarrow> bus_ok s \<Longrightarrow>
   imx585_set_exposure s e =
     Some (0, s\<lparr>trace := trace s @
       written (buffered_write IMX585_EXPOSURE 3
         (imx585_mode.height m + word_of_int (val vb) - e - 1))\<rparr>)"
  by (simp add: imx585_set_exposure_def write_buffered_reg_ok)

text \<open>
  C8. For every value \<open>v\<close>, with a mode selected and a bus that accepts the writes,
  \<open>imx585_set_hmax\<close> computes \<open>hmax = (v + mode.width) >> 1\<close> in 32-bit arithmetic and writes
  it as a two-byte buffered value: latch set, low byte at HMAX, high byte at HMAX + 1,
  latch released. The shift halves and rounds down; when \<open>v + mode.width\<close> does not
  overflow, \<open>hmax\<close> is the integer quotient of the sum by 2, and for width 3856 and
  \<open>v = 1\<close> it is 1928.
\<close>

theorem set_hmax_register:
  "current_mode s = Some m \<Longrightarrow> bus_ok s \<Longrightarrow> hmax_reg = drop_bit 1 (v + imx585_mode.width m) \<Longrightarrow>
   imx585_set_hmax s v =
     Some (0, s\<lparr>trace := trace s @
       [Regmap_write IMX585_REGHOLD 1 0,
        Regmap_write IMX585_HMAX (ucast hmax_reg) 0,
        Regmap_write (IMX585_HMAX + 1) (ucast (drop_bit 8 hmax_reg)) 0,
        Regmap_write IMX585_REGHOLD 0 0]\<rparr>)
   \<and> uint hmax_reg = uint (v + imx585_mode.width m) div 2
   \<and> (uint v + uint (imx585_mode.width m) < 2 ^ 32 \<longrightarrow>
        uint hmax_reg = (uint v + uint (imx585_mode.width m)) div 2)
   \<and> (imx585_mode.width m = 3856 \<and> v = 1 \<longrightarrow> hmax_reg = 1928)"
proof -
  assume m: "current_mode s = Some m" and ok: "bus_ok s"
    and h: "hmax_reg = drop_bit 1 (v + imx585_mode.width m)"
  have half: "uint hmax_reg = uint (v + imx585_mode.width m) div 2"
    unfolding h by (rule uint_drop_bit_1)
  have exact: "uint v + uint (imx585_mode.width m) < 2 ^ 32 \<longrightarrow>
      uint hmax_reg = (uint v + uint (imx585_mode.width m)) div 2"
  proof
    assume "uint v + uint (imx585_mode.width m) < 2 ^ 32"
    then have "uint (v + imx585_mode.width m) = uint v + uint (imx585_mode.width m)"
      by (simp add: uint_add_lem [THEN iffD1])
    with half show "uint hmax_reg = (uint v + uint (imx585_mode.width m)) div 2" by simp
  qed
  have ex: "imx585_mode.width m = 3856 \<and> v = 1 \<longrightarrow> hmax_reg = 1928"
    by (simp add: h)
  from set_hmax_ok [OF m ok, of v] h half exact ex show ?thesis
    by (simp add: written_buffered_write_2)
qed

theorem set_hmax_register_witness:
  "current_mode attached_2lane_colour = Some (hd imx585_modes)
   \<and> bus_ok attached_2lane_colour
   \<and> imx585_mode.width (hd imx585_modes) = 3856
   \<and> uint (1 :: u32) + uint (imx585_mode.width (hd imx585_modes)) < 2 ^ 32
   \<and> imx585_set_hmax attached_2lane_colour 1 =
       Some (0, attached_2lane_colour\<lparr>trace := trace attached_2lane_colour @
         [Regmap_write 0x3001 1 0, Regmap_write 0x302c 0x88 0, Regmap_write 0x302d 0x07 0,
          Regmap_write 0x3001 0 0]\<rparr>)"
  using set_hmax_register [of attached_2lane_colour "hd imx585_modes" 1928 1]
  by (simp add: attached_2lane_colour_def imx585_modes_def bus_ok_def IMX585_REGHOLD_def
      IMX585_HMAX_def)


lemma exposure_reg_no_wrap:
  fixes h e :: u32
  assumes "0 \<le> vb" "uint h + vb \<le> uint IMX585_VMAX_MAX" "8 \<le> uint e"
    "uint e \<le> uint h + vb - 4"
  shows "h + word_of_int vb - e - 1 = word_of_int (uint h + vb - uint e - 1)"
    and "uint (word_of_int (uint h + vb - uint e - 1) :: u32) = uint h + vb - uint e - 1"
proof -
  show "h + word_of_int vb - e - 1 = word_of_int (uint h + vb - uint e - 1)"
    by simp
  from assms have "0 \<le> uint h + vb - uint e - 1" "uint h + vb - uint e - 1 < 2 ^ 32"
    by (simp_all add: IMX585_VMAX_MAX_def)
  then show "uint (word_of_int (uint h + vb - uint e - 1) :: u32) = uint h + vb - uint e - 1"
    by (subst uint_word_of_int) simp
qed

text \<open>
  C6. Let \<open>vmax_register = mode.height + vblank.value\<close> lie within the register's maximum
  \<open>IMX585_VMAX_MAX\<close>, and let the exposure value \<open>e\<close> lie in the advertised range
  \<open>[8, vmax_register - 4]\<close>. On a bus that accepts the writes, \<open>imx585_set_exposure\<close> writes
  the value \<open>mode.height + vblank.value - e - 1\<close> as a three-byte buffered value (latch set,
  three bytes from the low one up at EXPOSURE, latch released). The subtraction does not
  wrap: the register value is that integer, it fits three bytes, and it is at least 0
  (indeed at least 3) and at most \<open>vmax_register - 5\<close> (indeed at most \<open>vmax_register - 9\<close>)
  over the whole range, its two ends included.
\<close>

theorem set_exposure_register:
  "current_mode s = Some m \<Longrightarrow> vblank s = Some vb \<Longrightarrow> bus_ok s \<Longrightarrow>
   0 \<le> val vb \<Longrightarrow> vmax_register = uint (imx585_mode.height m) + val vb \<Longrightarrow>
   vmax_register \<le> uint IMX585_VMAX_MAX \<Longrightarrow>
   8 \<le> uint e \<Longrightarrow> uint e \<le> vmax_register - 4 \<Longrightarrow>
   (reg :: u32) = word_of_int (uint (imx585_mode.height m) + val vb - uint e - 1) \<Longrightarrow>
   imx585_set_exposure s e =
     Some (0, s\<lparr>trace := trace s @
       [Regmap_write IMX585_REGHOLD 1 0,
        Regmap_write IMX585_EXPOSURE (ucast reg) 0,
        Regmap_write (IMX585_EXPOSURE + 1) (ucast (drop_bit 8 reg)) 0,
        Regmap_write (IMX585_EXPOSURE + 2) (ucast (drop_bit 16 reg)) 0,
        Regmap_write IMX585_REGHOLD 0 0]\<rparr>)
   \<and> uint reg = uint (imx585_mode.height m) + val vb - uint e - 1
   \<and> uint reg < 2 ^ 24
   \<and> 0 \<le> uint reg \<and> uint reg \<le> vmax_register - 5
   \<and> 3 \<le> uint reg \<and> uint reg \<le> vmax_register - 9"
proof -
  assume m: "current_mode s = Some m" and vb: "vblank s = Some vb" and ok: "bus_ok s"
    and nn: "0 \<le> val vb" and vm: "vmax_register = uint (imx585_mode.height m) + val vb"
    and mx: "vmax_register \<le> uint IMX585_VMAX_MAX"
    and lo: "8 \<le> uint e" and hi: "uint e \<le> vmax_register - 4"
    and reg: "reg = word_of_int (uint (imx585_mode.height m) + val vb - uint e - 1)"
  from mx vm have mx': "uint (imx585_mode.height m) + val vb \<le> uint IMX585_VMAX_MAX" by simp
  from hi vm have hi': "uint e \<le> uint (imx585_mode.height m) + val vb - 4" by simp
  have w: "imx585_mode.height m + word_of_int (val vb) - e - 1 = reg"
    unfolding reg by (rule exposure_reg_no_wrap(1) [OF nn mx' lo hi'])
  have u: "uint reg = uint (imx585_mode.height m) + val vb - uint e - 1"
    unfolding reg by (rule exposure_reg_no_wrap(2) [OF nn mx' lo hi'])
  from u vm mx lo hi have b: "uint reg < 2 ^ 24" "3 \<le> uint reg" "uint reg \<le> vmax_register - 9"
    by (simp_all add: IMX585_VMAX_MAX_def)
  from set_exposure_ok [OF m vb ok, of e] w u b show ?thesis
    by (simp add: written_buffered_write_3)
qed

theorem set_exposure_register_witness:
  "current_mode attached_2lane_colour = Some (hd imx585_modes)
   \<and> vblank attached_2lane_colour = Some (v4l2_ctrl_new_std V4L2_CID_VBLANK 70 1046395 1 70)
   \<and> bus_ok attached_2lane_colour
   \<and> uint (imx585_mode.height (hd imx585_modes)) + 70 = 2250
   \<and> (2250 :: int) \<le> uint IMX585_VMAX_MAX
   \<and> imx585_set_exposure attached_2lane_colour 8 =
       Some (0, attached_2lane_colour\<lparr>trace := trace attached_2lane_colour @
         [Regmap_write 0x3001 1 0, Regmap_write 0x3050 0xc1 0, Regmap_write 0x3051 0x08 0,
          Regmap_write 0x3052 0x00 0, Regmap_write 0x3001 0 0]\<rparr>)
   \<and> uint (2241 :: u32) \<le> 2250 - 5"
  using set_exposure_register [of attached_2lane_colour "hd imx585_modes"
      "v4l2_ctrl_new_std V4L2_CID_VBLANK 70 1046395 1 70" 2250 8 2241]
  by (simp add: attached_2lane_colour_def imx585_modes_def bus_ok_def IMX585_REGHOLD_def
      IMX585_EXPOSURE_def IMX585_VMAX_MAX_def v4l2_ctrl_new_std_def)


text \<open>
  The result of \<open>imx585_set_vmax\<close> is the result of its VMAX write alone: what the
  re-issued exposure write returns is dropped.
\<close>

lemma set_vmax_returns_vmax_write:
  "current_mode s = Some m \<Longrightarrow> imx585_set_vmax s v = Some (ret, s') \<Longrightarrow>
   ret = fst (imx585_write_buffered_reg s IMX585_VMAX 3 (v + imx585_mode.height m))"
  by (auto simp: imx585_set_vmax_def Let_def split: option.splits prod.splits)


text \<open>
  C3. For every value \<open>v\<close>, on an attached instance (mode selected, exposure and vertical
  blanking controls present) whose bus accepts the writes, \<open>imx585_set_vmax\<close> does three
  things in this order. It writes \<open>vmax = v + mode.height\<close> (32-bit arithmetic) as a
  three-byte buffered value at VMAX. It then sets the range of the exposure control to
  \<open>[8, vmax - 4]\<close> with step 2 and the default at the new maximum. It then issues
  \<open>imx585_set_exposure\<close> with the value the exposure control holds after that range change,
  which writes \<open>mode.height + vblank.value - exposure.value - 1\<close> as a three-byte buffered
  value at EXPOSURE. It returns 0.
\<close>

theorem set_vmax_sequence:
  "current_mode s = Some m \<Longrightarrow> exposure s = Some ex \<Longrightarrow> vblank s = Some vb \<Longrightarrow>
   bus_ok s \<Longrightarrow>
   vmax_reg = v + imx585_mode.height m \<Longrightarrow> mx = uint (vmax_reg - 4) \<Longrightarrow>
   ex' = ex\<lparr>minimum := 8, maximum := mx, step := 2, default_value := mx,
             val := (if 8 \<le> val ex \<and> val ex \<le> mx then val ex else mx)\<rparr> \<Longrightarrow>
   exposure_reg = imx585_mode.height m + word_of_int (val vb) - word_of_int (val ex') - 1 \<Longrightarrow>
   imx585_set_vmax s v =
     Some (0, s\<lparr>exposure := Some ex',
                trace := trace s @
       [Regmap_write IMX585_REGHOLD 1 0,
        Regmap_write IMX585_VMAX (ucast vmax_reg) 0,
        Regmap_write (IMX585_VMAX + 1) (ucast (drop_bit 8 vmax_reg)) 0,
        Regmap_write (IMX585_VMAX + 2) (ucast (drop_bit 16 vmax_reg)) 0,
        Regmap_write IMX585_REGHOLD 0 0,
        Ctrl_modify_range (cid ex) 8 mx 2 mx,
        Regmap_write IMX585_REGHOLD 1 0,
        Regmap_write IMX585_EXPOSURE (ucast exposure_reg) 0,
        Regmap_write (IMX585_EXPOSURE + 1) (ucast (drop_bit 8 exposure_reg)) 0,
        Regmap_write (IMX585_EXPOSURE + 2) (ucast (drop_bit 16 exposure_reg)) 0,
        Regmap_write IMX585_REGHOLD 0 0]\<rparr>)"
proof -
  assume m: "current_mode s = Some m" and ex: "exposure s = Some ex"
    and vb: "vblank s = Some vb" and ok: "bus_ok s"
    and vm: "vmax_reg = v + imx585_mode.height m" and mx: "mx = uint (vmax_reg - 4)"
    and ex': "ex' = ex\<lparr>minimum := 8, maximum := mx, step := 2, default_value := mx,
             val := (if 8 \<le> val ex \<and> val ex \<le> mx then val ex else mx)\<rparr>"
    and er: "exposure_reg =
      imx585_mode.height m + word_of_int (val vb) - word_of_int (val ex') - 1"
  let ?s1 = "s\<lparr>trace := trace s @ written (buffered_write IMX585_VMAX 3 vmax_reg)\<rparr>"
  let ?s3 = "?s1\<lparr>trace := trace ?s1 @ [Ctrl_modify_range (cid ex) 8 mx 2 mx],
                 exposure := Some ex'\<rparr>"
  have w1: "imx585_write_buffered_reg s IMX585_VMAX 3 vmax_reg = (0, ?s1)"
    by (rule write_buffered_reg_ok [OF ok])
  have mr: "v4l2_ctrl_modify_range ex (uint IMX585_EXPOSURE_MIN) mx IMX585_EXPOSURE_STEP mx = ex'"
    by (simp add: v4l2_ctrl_modify_range_def ex' IMX585_EXPOSURE_MIN_def
        IMX585_EXPOSURE_STEP_def)
  have m3: "current_mode ?s3 = Some m" and vb3: "vblank ?s3 = Some vb" and ok3: "bus_ok ?s3"
    using m vb ok by simp_all
  have w2: "imx585_set_exposure ?s3 (word_of_int (val ex')) =
      Some (0, ?s3\<lparr>trace := trace ?s3 @
        written (buffered_write IMX585_EXPOSURE 3 exposure_reg)\<rparr>)"
    unfolding er by (rule set_exposure_ok [OF m3 vb3 ok3])
  from m ex w1 mr w2 vm mx show ?thesis
    by (simp add: imx585_set_vmax_def Let_def range_modified_def IMX585_EXPOSURE_OFFSET_def
        IMX585_EXPOSURE_MIN_def IMX585_EXPOSURE_STEP_def written_buffered_write_3)
qed

theorem set_vmax_sequence_witness:
  "current_mode attached_2lane_colour = Some (hd imx585_modes)
   \<and> exposure attached_2lane_colour = Some (v4l2_ctrl_new_std V4L2_CID_EXPOSURE 8 2248 2 2248)
   \<and> vblank attached_2lane_colour = Some (v4l2_ctrl_new_std V4L2_CID_VBLANK 70 1046395 1 70)
   \<and> bus_ok attached_2lane_colour
   \<and> imx585_set_vmax attached_2lane_colour 70 =
       Some (0, attached_2lane_colour
         \<lparr>exposure := Some ((v4l2_ctrl_new_std V4L2_CID_EXPOSURE 8 2246 2 2246)),
          trace := trace attached_2lane_colour @
           [Regmap_write 0x3001 1 0, Regmap_write 0x3028 0xca 0, Regmap_write 0x3029 0x08 0,
            Regmap_write 0x302a 0x00 0, Regmap_write 0x3001 0 0,
            Ctrl_modify_range V4L2_CID_EXPOSURE 8 2246 2 2246,
            Regmap_write 0x3001 1 0, Regmap_write 0x3050 0x03 0, Regmap_write 0x3051 0x00 0,
            Regmap_write 0x3052 0x00 0, Regmap_write 0x3001 0 0]\<rparr>)"
proof -
  have h1: "current_mode attached_2lane_colour = Some (hd imx585_modes)"
    and h2: "exposure attached_2lane_colour =
      Some (v4l2_ctrl_new_std V4L2_CID_EXPOSURE 8 2248 2 2248)"
    and h3: "vblank attached_2lane_colour =
      Some (v4l2_ctrl_new_std V4L2_CID_VBLANK 70 1046395 1 70)"
    and h4: "bus_ok attached_2lane_colour"
    by (simp_all add: attached_2lane_colour_def bus_ok_def)
  have h5: "(2250 :: u32) = 70 + imx585_mode.height (hd imx585_modes)"
    by (simp add: imx585_modes_def)
  have h6: "(2246 :: int) = uint ((2250 :: u32) - 4)"
    by simp
  have h7: "v4l2_ctrl_new_std V4L2_CID_EXPOSURE 8 2246 2 2246 =
      (v4l2_ctrl_new_std V4L2_CID_EXPOSURE 8 2248 2 2248)
        \<lparr>minimum := 8, maximum := 2246, step := 2, default_value := 2246,
         val := (if 8 \<le> val (v4l2_ctrl_new_std V4L2_CID_EXPOSURE 8 2248 2 2248) \<and>
                    val (v4l2_ctrl_new_std V4L2_CID_EXPOSURE 8 2248 2 2248) \<le> 2246
                 then val (v4l2_ctrl_new_std V4L2_CID_EXPOSURE 8 2248 2 2248) else 2246)\<rparr>"
    by (simp add: v4l2_ctrl_new_std_def)
  have h8: "(3 :: u32) = imx585_mode.height (hd imx585_modes) +
      word_of_int (val (v4l2_ctrl_new_std V4L2_CID_VBLANK 70 1046395 1 70)) -
      word_of_int (val (v4l2_ctrl_new_std V4L2_CID_EXPOSURE 8 2246 2 2246)) - 1"
    by (simp add: imx585_modes_def v4l2_ctrl_new_std_def)
  have c: "cid (v4l2_ctrl_new_std V4L2_CID_EXPOSURE 8 2248 2 2248) = V4L2_CID_EXPOSURE"
    by (simp add: v4l2_ctrl_new_std_def)
  from set_vmax_sequence [OF h1 h2 h3 h4 h5 h6 h7 h8] h1 h2 h3 h4 c show ?thesis
    by (simp add: IMX585_REGHOLD_def IMX585_EXPOSURE_def IMX585_VMAX_def)
qed


subsection \<open>Format negotiation and device attach\<close>

lemma find_format_unfold:
  "imx585_find_format fs c 0 =
     (if imx585_pixfmt.code (fs ! 0) = c then 0
      else if imx585_pixfmt.code (fs ! 1) = c then 1 else 2)"
  by (simp add: imx585_find_format.simps [of fs c 0] imx585_find_format.simps [of fs c 1]
      imx585_find_format.simps [of fs c 2] imx585_find_format.simps [of fs c "Suc 0"]
      imx585_find_format.simps [of fs c "Suc (Suc 0)"] IMX585_NUM_FORMATS_def)

lemma nearest_catalog [simp]:
  "v4l2_find_nearest_size imx585_modes w h = Some (hd imx585_modes)"
  by (simp add: imx585_modes_def)

lemma probe_attached:
  "imx585_probe platform_2lane_colour = Some (Inr attached_2lane_colour)"
  apply (simp add: imx585_probe_def platform_2lane_colour_def devm_kzalloc_def
      imx585_check_link_freqs_def imx585_link_freqs_ptr_def imx585_link_freq_2lanes_def
      imx585_link_freq_4lanes_def imx585_entity_init_cfg_def Let_def
      imx585_set_fmt_def find_format_unfold zero_framefmt_def IMX585_NUM_FORMATS_def
      imx585_colour_formats_def MEDIA_BUS_FMT_SRGGB10_1X10_def MEDIA_BUS_FMT_SRGGB12_1X12_def
      V4L2_MAP_YCBCR_ENC_DEFAULT_def V4L2_MAP_QUANTIZATION_DEFAULT_def
      V4L2_MAP_XFER_FUNC_DEFAULT_def imx585_probe_ctrls_def imx585_link_freqs_num_def
      imx585_calc_pixel_rate_def v4l2_ctrl_s_ctrl_def v4l2_ctrl_modify_range_def
      range_modified_def v4l2_ctrl_new_std_def v4l2_ctrl_new_int_menu_def imx585_power_on_def
      usleep_range_def attached_2lane_colour_def IMX585_INCK_SEL_24_def INT_MAX_def
      IMX585_EXPOSURE_MIN_def IMX585_EXPOSURE_STEP_def IMX585_HMAX_MAX_def IMX585_VMAX_MAX_def)
  apply (simp add: imx585_modes_def)
  done

lemma set_fmt_active_ranges:
  assumes act: "which fmt = V4L2_SUBDEV_FORMAT_ACTIVE"
    and ex: "exposure s = Some ex" and vb: "vblank s = Some vb"
  shows "\<exists>s' fmt' ex' vb'.
     imx585_set_fmt s st fmt = Some (0, s', st, fmt') \<and>
     current_mode s' = Some (hd imx585_modes) \<and>
     exposure s' = Some ex' \<and> vblank s' = Some vb' \<and>
     minimum ex' = 8 \<and> maximum ex' = 2248 \<and> step ex' = 2 \<and> default_value ex' = 2248 \<and>
     val vb' = 70"
  using act ex vb
  by (simp add: imx585_set_fmt_def Let_def range_modified_def v4l2_ctrl_modify_range_def
      v4l2_ctrl_s_ctrl_def IMX585_EXPOSURE_MIN_def IMX585_EXPOSURE_STEP_def
      split: option.split)
    (simp add: imx585_modes_def)

text \<open>
  C1 (evaluation at the failing input). Attaching a colour sensor on two lanes yields the
  instance \<open>attached_2lane_colour\<close>: the mode of height 2180, vertical blanking at 70 and an
  exposure range of \<open>[8, 2248]\<close> with step 2. With \<open>vmax_register = 70 + 2180 = 2250\<close> the
  claim asks for the maximum \<open>2250 - 4 = 2246\<close>, the offset \<open>IMX585_EXPOSURE_OFFSET\<close> that
  the source documents and \<open>imx585_set_vmax\<close> applies; attach leaves 2248. An active-scope
  negotiation on that instance leaves 2248 as well.
\<close>

theorem attach_exposure_range_offset_two:
  "imx585_probe platform_2lane_colour = Some (Inr attached_2lane_colour)
   \<and> exposure attached_2lane_colour =
       Some \<lparr>cid = V4L2_CID_EXPOSURE, minimum = 8, maximum = 2248, step = 2,
             default_value = 2248, val = 2248, read_only = False, grabbed = False\<rparr>
   \<and> map_option val (vblank attached_2lane_colour) = Some 70
   \<and> map_option imx585_mode.height (current_mode attached_2lane_colour) = Some 2180
   \<and> (70 :: int) + uint (2180 :: u32) - uint IMX585_EXPOSURE_OFFSET = 2246
   \<and> (case imx585_set_fmt attached_2lane_colour None
              \<lparr>which = V4L2_SUBDEV_FORMAT_ACTIVE, pad = 0,
               format = zero_framefmt\<lparr>v4l2_mbus_framefmt.width := 3856,
                                       v4l2_mbus_framefmt.height := 2180,
                                       v4l2_mbus_framefmt.code := MEDIA_BUS_FMT_SRGGB12_1X12\<rparr>\<rparr> of
         None \<Rightarrow> False
       | Some (ret, s', st', fmt') \<Rightarrow>
           ret = 0 \<and> map_option maximum (exposure s') = Some 2248
           \<and> map_option val (vblank s') = Some 70
           \<and> map_option imx585_mode.height (current_mode s') = Some 2180)"
proof -
  have a: "exposure attached_2lane_colour =
       Some \<lparr>cid = V4L2_CID_EXPOSURE, minimum = 8, maximum = 2248, step = 2,
             default_value = 2248, val = 2248, read_only = False, grabbed = False\<rparr>"
    and b: "vblank attached_2lane_colour =
       Some (v4l2_ctrl_new_std V4L2_CID_VBLANK 70 1046395 1 70)"
    and c: "map_option imx585_mode.height (current_mode attached_2lane_colour) = Some 2180"
    by (simp_all add: attached_2lane_colour_def v4l2_ctrl_new_std_def imx585_modes_def)
  have d: "val (v4l2_ctrl_new_std V4L2_CID_VBLANK 70 1046395 1 70) = 70"
    by (simp add: v4l2_ctrl_new_std_def)
  have h: "imx585_mode.height (hd imx585_modes) = 2180"
    by (simp add: imx585_modes_def)
  let ?fmt = "\<lparr>which = V4L2_SUBDEV_FORMAT_ACTIVE, pad = 0,
               format = zero_framefmt\<lparr>v4l2_mbus_framefmt.width := 3856,
                                       v4l2_mbus_framefmt.height := 2180,
                                       v4l2_mbus_framefmt.code := MEDIA_BUS_FMT_SRGGB12_1X12\<rparr>\<rparr>"
  have "which ?fmt = V4L2_SUBDEV_FORMAT_ACTIVE" by simp
  from set_fmt_active_ranges [OF this a b, of None] obtain s' fmt' ex' vb' where
    "imx585_set_fmt attached_2lane_colour None ?fmt = Some (0, s', None, fmt')"
    "current_mode s' = Some (hd imx585_modes)" "exposure s' = Some ex'" "vblank s' = Some vb'"
    "maximum ex' = 2248" "val vb' = 70"
    by blast
  with probe_attached a b c d h show ?thesis
    by (simp add: IMX585_EXPOSURE_OFFSET_def)
qed


subsection \<open>Streaming\<close>

lemma write_reg_failed_iff:
  "imx585_write_reg s a v = (ret, s1) \<Longrightarrow> ret < 0 \<longleftrightarrow> ret \<noteq> 0"
  using imx585_write_reg_nonpos [of s a v] by auto

lemma set_register_array_failed_iff:
  "imx585_set_register_array s xs = (ret, s1) \<Longrightarrow> ret < 0 \<longleftrightarrow> ret \<noteq> 0"
  using set_register_array_nonpos [of s xs] by auto

lemma write_current_format_failed_iff:
  "imx585_write_current_format s = (ret, s1) \<Longrightarrow> ret < 0 \<longleftrightarrow> ret \<noteq> 0"
  by (auto simp: imx585_write_current_format_def Let_def EINVAL_def
      split: if_splits prod.splits dest: write_reg_failed_iff)

lemma run_steps_abort:
  "run_steps pre s = Some (0, s1) \<Longrightarrow> f s1 = Some (ret, s2) \<Longrightarrow> ret \<noteq> 0 \<Longrightarrow>
   run_steps (pre @ f # post) s = Some (ret, s2)"
  by (induction pre arbitrary: s) (auto split: option.splits if_splits)

lemma bus_failing_at_accepted:
  "a \<notin> fst ` set xs \<Longrightarrow> program_accepted (bus_failing_at a e) tr xs"
  by (induction xs arbitrary: tr) (auto simp: bus_failing_at_def)

text \<open>
  The order of \<open>imx585_start_streaming\<close>: it is the sequence \<open>start_steps\<close> run by
  \<open>run_steps\<close>, which performs the steps in list order and stops at the first step that
  returns a failure.
\<close>

lemma start_streaming_run_steps:
  "imx585_start_streaming s = run_steps start_steps s"
proof -
  define t9 :: step where
    "t9 = (\<lambda>s. Some (imx585_write_reg s IMX585_XMSTA 0x00))"
  define t8 :: step where
    "t8 = (\<lambda>s. case imx585_write_reg s IMX585_STANDBY 0x00 of (ret, s8) \<Rightarrow>
                 if ret < 0 then Some (ret, s8) else t9 (msleep s8 30))"
  define t7 :: step where
    "t7 = (\<lambda>s. case v4l2_ctrl_handler_setup s of None \<Rightarrow> None | Some (ret, s7) \<Rightarrow>
                 if ret \<noteq> 0 then Some (ret, dev_err s7 ''Could not sync v4l2 controls'' [])
                 else t8 s7)"
  define t6 :: step where
    "t6 = (\<lambda>s. case imx585_write_reg s IMX585_LANE_RATE
                  (if nlanes s = 2 then IMX585_LANE_RATE_1188 else IMX585_LANE_RATE_594) of
                 (ret, s6) \<Rightarrow> if ret < 0 then Some (ret, s6) else t7 s6)"
  define t5 :: step where
    "t5 = (\<lambda>s. case imx585_write_reg s IMX585_CSI_LANE_MODE
                  (if nlanes s = 2 then 0x01 else 0x03) of
                 (ret, s5) \<Rightarrow> if ret < 0 then Some (ret, s5) else t6 s5)"
  define t4 :: step where
    "t4 = (\<lambda>s. case current_mode s of None \<Rightarrow> None | Some mode \<Rightarrow>
                 (case imx585_set_register_array s (mode_data mode) of (ret, s4) \<Rightarrow>
                    if ret < 0 then Some (ret, dev_err s4 ''Could not set current mode'' [])
                    else t5 s4))"
  define t3 :: step where
    "t3 = (\<lambda>s. case imx585_write_current_format s of (ret, s3) \<Rightarrow>
                 if ret < 0 then Some (ret, dev_err s3 ''Could not set frame format'' [])
                 else t4 s3)"
  define t2 :: step where
    "t2 = (\<lambda>s. case imx585_write_reg (pr_err s ''write INCK_SEL with %02x'' [uint (inck_sel s)])
                  IMX585_INCK_SEL (inck_sel s) of
                 (ret, s2) \<Rightarrow> if ret < 0 then Some (ret, s2) else t3 s2)"
  define t1 :: step where
    "t1 = (\<lambda>s. case imx585_set_register_array s imx585_global_settings of (ret, s1) \<Rightarrow>
                 if ret < 0 then Some (ret, dev_err s1 ''Could not set init registers'' [])
                 else t2 s1)"
  have r9: "t9 s = run_steps [step_master_start] s" for s
    by (simp add: t9_def step_master_start_def split: prod.splits)
  have r8: "t8 s = run_steps [step_standby_clear, step_master_start] s" for s
    using r9 by (auto simp: t8_def step_standby_clear_def split: prod.splits
        dest: write_reg_failed_iff)
  have r7: "t7 s = run_steps [step_control_replay, step_standby_clear, step_master_start] s" for s
    using r8 by (auto simp: t7_def step_control_replay_def split: prod.splits option.splits)
  have r6: "t6 s = run_steps [step_lane_rate, step_control_replay, step_standby_clear,
      step_master_start] s" for s
    using r7 by (auto simp: t6_def step_lane_rate_def split: prod.splits
        dest: write_reg_failed_iff)
  have r5: "t5 s = run_steps [step_lane_count, step_lane_rate, step_control_replay,
      step_standby_clear, step_master_start] s" for s
    using r6 by (auto simp: t5_def step_lane_count_def split: prod.splits
        dest: write_reg_failed_iff)
  have r4: "t4 s = run_steps [step_mode_program, step_lane_count, step_lane_rate,
      step_control_replay, step_standby_clear, step_master_start] s" for s
    using r5 by (auto simp: t4_def step_mode_program_def split: prod.splits option.splits
        dest: set_register_array_failed_iff)
  have r3: "t3 s = run_steps [step_bit_depth, step_mode_program, step_lane_count,
      step_lane_rate, step_control_replay, step_standby_clear, step_master_start] s" for s
    using r4 by (auto simp: t3_def step_bit_depth_def split: prod.splits
        dest: write_current_format_failed_iff)
  have r2: "t2 s = run_steps [step_clock_select, step_bit_depth, step_mode_program,
      step_lane_count, step_lane_rate, step_control_replay, step_standby_clear,
      step_master_start] s" for s
    using r3 by (auto simp: t2_def step_clock_select_def split: prod.splits
        dest: write_reg_failed_iff)
  have r1: "t1 s = run_steps start_steps s" for s
    using r2 by (auto simp: t1_def start_steps_def step_global_defaults_def split: prod.splits
        dest: set_register_array_failed_iff)
  have "imx585_start_streaming s = t1 s"
    unfolding imx585_start_streaming_def t1_def t2_def t3_def t4_def t5_def t6_def t7_def
      t8_def t9_def by (rule refl)
  with r1 show ?thesis by simp
qed

lemma written_before_append [simp]:
  "written_before a (xs @ ys) = (written_before a xs \<or> written_before a ys)"
  by (induction xs) auto

lemma written_before_written [simp]:
  "written_before a (written xs) = (a \<in> fst ` set xs)"
  by (induction xs) auto

lemma bus_refusing_first_other [simp]:
  "b \<noteq> a \<Longrightarrow> bus_refusing_first a e tr b v = 0"
  by (simp add: bus_refusing_first_def)

lemma bus_refusing_first_accepted:
  "a \<notin> fst ` set xs \<Longrightarrow> program_accepted (bus_refusing_first a e) tr xs"
  by (induction xs arbitrary: tr) auto

lemma write_buffered_bytes_unfold_2:
  "imx585_write_buffered_bytes s a 2 v 0 =
     (case imx585_write_reg s a (ucast v) of (ret, s1) \<Rightarrow>
        if ret \<noteq> 0 then (ret, dev_err s1 ''Error writing buffered registers'' [])
        else (case imx585_write_reg s1 (a + 1) (ucast (drop_bit 8 v)) of (ret, s2) \<Rightarrow>
          if ret \<noteq> 0 then (ret, dev_err s2 ''Error writing buffered registers'' [])
          else (0, s2)))"
  by (simp add: imx585_write_buffered_bytes.simps [of _ _ 2 _ 0]
      imx585_write_buffered_bytes.simps [of _ _ 2 _ "Suc 0"]
      imx585_write_buffered_bytes.simps [of _ _ 2 _ "Suc (Suc 0)"]
      imx585_write_buffered_bytes.simps [of _ _ 2 _ 2] split: prod.splits)

lemma write_buffered_bytes_unfold_3:
  "imx585_write_buffered_bytes s a 3 v 0 =
     (case imx585_write_reg s a (ucast v) of (ret, s1) \<Rightarrow>
        if ret \<noteq> 0 then (ret, dev_err s1 ''Error writing buffered registers'' [])
        else (case imx585_write_reg s1 (a + 1) (ucast (drop_bit 8 v)) of (ret, s2) \<Rightarrow>
          if ret \<noteq> 0 then (ret, dev_err s2 ''Error writing buffered registers'' [])
          else (case imx585_write_reg s2 (a + 2) (ucast (drop_bit 16 v)) of (ret, s3) \<Rightarrow>
            if ret \<noteq> 0 then (ret, dev_err s3 ''Error writing buffered registers'' [])
            else (0, s3))))"
  by (simp add: imx585_write_buffered_bytes.simps [of _ _ 3 _ 0]
      imx585_write_buffered_bytes.simps [of _ _ 3 _ "Suc 0"]
      imx585_write_buffered_bytes.simps [of _ _ 3 _ "Suc (Suc 0)"]
      imx585_write_buffered_bytes.simps [of _ _ 3 _ "Suc (Suc (Suc 0))"] split: prod.splits)

lemma exposure_not_in_global: "(0x3050 :: u16) \<notin> fst ` set imx585_global_settings"
  by (simp add: imx585_global_settings_def)

lemma global_on_transient_bus:
  "regmap s = bus_refusing_first 0x3050 e \<Longrightarrow>
   imx585_set_register_array s imx585_global_settings =
     (0, s\<lparr>trace := trace s @ written imx585_global_settings @ [Usleep_range 10000 11000]\<rparr>)"
  by (rule set_register_array_all)
    (simp add: bus_refusing_first_accepted exposure_not_in_global)

text \<open>
  C4 (evaluation at the failing input). Streaming is enabled on the attached instance
  over a bus that refuses one write only, the first write to the EXPOSURE register. The
  batches go out in the order of the claim: global defaults, input-clock select, ADBIT and
  MDBIT, the mode's program, lane count, lane rate, the control replay, standby clear, the
  30 ms wait, master start. The refused write is the exposure write that \<open>imx585_set_vmax\<close>
  re-issues while the vertical-blanking control is replayed. Its failure is logged and
  dropped: the replay goes on with the remaining controls, standby is cleared, the master
  start is written, and the request returns 0, where the claim has start return that
  failure with no later write.
\<close>

theorem start_continues_after_refused_exposure_write:
  "map_option fst (imx585_set_stream
      (attached_2lane_colour\<lparr>regmap := bus_refusing_first IMX585_EXPOSURE EIO\<rparr>) 1) = Some 0
   \<and> map_option (trace \<circ> snd) (imx585_set_stream
      (attached_2lane_colour\<lparr>regmap := bus_refusing_first IMX585_EXPOSURE EIO\<rparr>) 1) =
     Some (trace attached_2lane_colour @
       [Pm_runtime_resume_and_get 0] @
       written imx585_global_settings @
       [Usleep_range 10000 11000,
        Pr_err ''write INCK_SEL with %02x'' [4],
        Regmap_write IMX585_INCK_SEL 4 0,
        Regmap_write IMX585_ADBIT 0 0,
        Regmap_write IMX585_MDBIT 0 0] @
       written imx585_1080p_common_settings @
       [Usleep_range 10000 11000,
        Regmap_write IMX585_CSI_LANE_MODE 1 0,
        Regmap_write IMX585_LANE_RATE IMX585_LANE_RATE_1188 0,
        Regmap_write IMX585_REGHOLD 1 0,
        Regmap_write IMX585_GAIN 0 0,
        Regmap_write (IMX585_GAIN + 1) 0 0,
        Regmap_write IMX585_REGHOLD 0 0,
        Regmap_write IMX585_FR_FDG_SEL0 IMX585_FDG_SEL0_HCG 0,
        Pm_runtime_put,
        Regmap_write IMX585_REGHOLD 1 0,
        Regmap_write IMX585_HMAX 0x68 0,
        Regmap_write (IMX585_HMAX + 1) 0x0f 0,
        Regmap_write IMX585_REGHOLD 0 0,
        Pm_runtime_put,
        Regmap_write IMX585_REGHOLD 1 0,
        Regmap_write IMX585_VMAX 0xca 0,
        Regmap_write (IMX585_VMAX + 1) 0x08 0,
        Regmap_write (IMX585_VMAX + 2) 0x00 0,
        Regmap_write IMX585_REGHOLD 0 0,
        Ctrl_modify_range V4L2_CID_EXPOSURE 8 2246 2 2246,
        Regmap_write IMX585_REGHOLD 1 0,
        Regmap_write IMX585_EXPOSURE 0x03 (- 5),
        Dev_err ''I2C write failed for addr: %x'' [0x3050],
        Dev_err ''Error writing buffered registers'' [],
        Dev_err ''Unable to write exposure'' [],
        Pm_runtime_put,
        Regmap_write IMX585_REGHOLD 1 0,
        Regmap_write IMX585_EXPOSURE 0x03 0,
        Regmap_write (IMX585_EXPOSURE + 1) 0x00 0,
        Regmap_write (IMX585_EXPOSURE + 2) 0x00 0,
        Regmap_write IMX585_REGHOLD 0 0,
        Pm_runtime_put,
        Regmap_write IMX585_FLIP_WINMODEH 0 0,
        Pm_runtime_put,
        Regmap_write IMX585_FLIP_WINMODEV 0 0,
        Pm_runtime_put,
        Regmap_write IMX585_STANDBY 0 0,
        Msleep 30,
        Regmap_write IMX585_XMSTA 0 0])"
  by (simp add: imx585_set_stream_def pm_runtime_resume_and_get_def imx585_start_streaming_def
      global_on_transient_bus exposure_not_in_global pr_err_def imx585_write_current_format_def
      imx585_1080p_common_settings_def usleep_range_def msleep_def v4l2_ctrl_handler_setup_def
      v4l2_ctrl_grab_def attached_2lane_colour_def
      imx585_set_ctrl_def ctrl_of_def pm_runtime_get_if_in_use_def pm_runtime_put_def
      imx585_set_gain_def imx585_set_exposure_def imx585_set_hmax_def imx585_set_vmax_def
      imx585_write_buffered_reg_def write_buffered_bytes_unfold_2
      write_buffered_bytes_unfold_3 imx585_write_reg_def regmap_write_def
      dev_err_def Let_def v4l2_ctrl_new_std_def v4l2_ctrl_new_int_menu_def
      v4l2_ctrl_modify_range_def range_modified_def
      IMX585_REGHOLD_def IMX585_GAIN_def IMX585_FR_FDG_SEL0_def IMX585_FDG_SEL0_HCG_def
      IMX585_FDG_SEL0_LCG_def IMX585_EXPOSURE_def IMX585_HMAX_def IMX585_VMAX_def
      IMX585_FLIP_WINMODEH_def IMX585_FLIP_WINMODEV_def IMX585_EXPOSURE_MIN_def
      IMX585_EXPOSURE_STEP_def IMX585_EXPOSURE_OFFSET_def EIO_def imx585_modes_def
      MEDIA_BUS_FMT_SRGGB10_1X10_def MEDIA_BUS_FMT_SRGGB12_1X12_def MEDIA_BUS_FMT_Y10_1X10_def
      MEDIA_BUS_FMT_Y12_1X12_def IMX585_INCK_SEL_def IMX585_INCK_SEL_24_def IMX585_ADBIT_def
      IMX585_MDBIT_def IMX585_CSI_LANE_MODE_def IMX585_LANE_RATE_def IMX585_LANE_RATE_1188_def
      IMX585_LANE_RATE_594_def IMX585_STANDBY_def IMX585_XMSTA_def IMX585_FR_FDG_SEL1_def
      IMX585_FR_FDG_SEL2_def bus_refusing_first_def)


lemma stop_streaming_standby_ok:
  "regmap s (trace s) IMX585_STANDBY 1 = 0 \<Longrightarrow>
   regmap s (trace s @ [Regmap_write IMX585_STANDBY 1 0, Msleep 30]) IMX585_XMSTA 1 = e2 \<Longrightarrow>
   snd (imx585_stop_streaming s) =
     s\<lparr>trace := trace s @
       [Regmap_write IMX585_STANDBY 1 0, Msleep 30, Regmap_write IMX585_XMSTA 1 (- int e2)] @
       (if e2 \<noteq> 0 then [Dev_err ''I2C write failed for addr: %x'' [uint IMX585_XMSTA]]
        else [])\<rparr>"
  by (simp add: imx585_stop_streaming_def imx585_write_reg_ok msleep_def
      imx585_write_reg_def regmap_write_def dev_err_def Let_def)

lemma stop_streaming_standby_refused:
  "regmap s (trace s) IMX585_STANDBY 1 = e \<Longrightarrow> e \<noteq> 0 \<Longrightarrow>
   imx585_stop_streaming s =
     (- int e, s\<lparr>trace := trace s @
       [Regmap_write IMX585_STANDBY 1 (- int e),
        Dev_err ''I2C write failed for addr: %x'' [uint IMX585_STANDBY]]\<rparr>)"
  by (simp add: imx585_stop_streaming_def imx585_write_reg_fail)

text \<open>
  C5 (counterexample). On a bus that refuses the standby-set write, a stop request writes
  nothing after the refused write: no 30 ms wait and no master-stop write are issued. Power
  is released and the request returns 0.
\<close>

theorem set_stream_stop_standby_refused:
  "map_option fst (imx585_set_stream
     (attached_2lane_colour\<lparr>regmap := bus_failing_at IMX585_STANDBY EIO, pm_usage := 1\<rparr>) 0) =
   Some 0
   \<and> map_option (trace \<circ> snd) (imx585_set_stream
     (attached_2lane_colour\<lparr>regmap := bus_failing_at IMX585_STANDBY EIO, pm_usage := 1\<rparr>) 0) =
   Some (trace attached_2lane_colour @
        [Regmap_write IMX585_STANDBY 1 (- 5),
         Dev_err ''I2C write failed for addr: %x'' [0x3000],
         Pm_runtime_put])"
proof -
  let ?s = "attached_2lane_colour\<lparr>regmap := bus_failing_at IMX585_STANDBY EIO, pm_usage := 1\<rparr>"
  have bad: "regmap ?s (trace ?s) IMX585_STANDBY 1 = EIO"
    by (simp add: bus_failing_at_def)
  have ne: "EIO \<noteq> 0" by (simp add: EIO_def)
  have st: "imx585_stop_streaming ?s =
     (- int EIO, ?s\<lparr>trace := trace ?s @
       [Regmap_write IMX585_STANDBY 1 (- int EIO),
        Dev_err ''I2C write failed for addr: %x'' [uint IMX585_STANDBY]]\<rparr>)"
    by (rule stop_streaming_standby_refused [OF bad ne])
  have u: "uint IMX585_STANDBY = 0x3000" "- int EIO = - 5"
    by (simp_all add: IMX585_STANDBY_def EIO_def)
  show ?thesis
    unfolding imx585_set_stream_def st u
    by (simp add: pm_runtime_put_def Let_def)
qed

text \<open>
  C5 (amended). On every stop request the driver issues the standby-set write. When the
  bus accepts it, the driver waits 30 ms, issues the master-stop write and then releases
  power, whether or not the master-stop write succeeded. When the bus refuses the
  standby-set write, the wait and the master-stop write are skipped and power is released
  right after the refused write. In both cases the request returns 0 and the flip controls
  are released.
\<close>

theorem set_stream_stop:
  "(regmap s (trace s) IMX585_STANDBY 1 = 0 \<and>
    regmap s (trace s @ [Regmap_write IMX585_STANDBY 1 0, Msleep 30]) IMX585_XMSTA 1 = e2 \<longrightarrow>
      imx585_set_stream s 0 =
        Some (0, s\<lparr>trace := trace s @
                     [Regmap_write IMX585_STANDBY 1 0, Msleep 30,
                      Regmap_write IMX585_XMSTA 1 (- int e2)] @
                     (if e2 \<noteq> 0
                      then [Dev_err ''I2C write failed for addr: %x'' [uint IMX585_XMSTA]]
                      else []) @
                     [Pm_runtime_put],
                   pm_usage := pm_usage s - 1,
                   vflip := v4l2_ctrl_grab (vflip s) False,
                   hflip := v4l2_ctrl_grab (hflip s) False\<rparr>))
   \<and> (regmap s (trace s) IMX585_STANDBY 1 = e \<and> e \<noteq> 0 \<longrightarrow>
      imx585_set_stream s 0 =
        Some (0, s\<lparr>trace := trace s @
                     [Regmap_write IMX585_STANDBY 1 (- int e),
                      Dev_err ''I2C write failed for addr: %x'' [uint IMX585_STANDBY],
                      Pm_runtime_put],
                   pm_usage := pm_usage s - 1,
                   vflip := v4l2_ctrl_grab (vflip s) False,
                   hflip := v4l2_ctrl_grab (hflip s) False\<rparr>))"
proof (intro conjI impI)
  assume a: "regmap s (trace s) IMX585_STANDBY 1 = 0 \<and>
    regmap s (trace s @ [Regmap_write IMX585_STANDBY 1 0, Msleep 30]) IMX585_XMSTA 1 = e2"
  obtain ret s1 where st: "imx585_stop_streaming s = (ret, s1)"
    by (cases "imx585_stop_streaming s")
  from a stop_streaming_standby_ok [of s e2] st
  have s1: "s1 = s\<lparr>trace := trace s @
       [Regmap_write IMX585_STANDBY 1 0, Msleep 30, Regmap_write IMX585_XMSTA 1 (- int e2)] @
       (if e2 \<noteq> 0 then [Dev_err ''I2C write failed for addr: %x'' [uint IMX585_XMSTA]]
        else [])\<rparr>"
    by simp
  show "imx585_set_stream s 0 =
        Some (0, s\<lparr>trace := trace s @
                     [Regmap_write IMX585_STANDBY 1 0, Msleep 30,
                      Regmap_write IMX585_XMSTA 1 (- int e2)] @
                     (if e2 \<noteq> 0
                      then [Dev_err ''I2C write failed for addr: %x'' [uint IMX585_XMSTA]]
                      else []) @
                     [Pm_runtime_put],
                   pm_usage := pm_usage s - 1,
                   vflip := v4l2_ctrl_grab (vflip s) False,
                   hflip := v4l2_ctrl_grab (hflip s) False\<rparr>)"
    by (simp add: imx585_set_stream_def st s1 pm_runtime_put_def Let_def)
next
  assume a: "regmap s (trace s) IMX585_STANDBY 1 = e \<and> e \<noteq> 0"
  then have "imx585_stop_streaming s =
     (- int e, s\<lparr>trace := trace s @
       [Regmap_write IMX585_STANDBY 1 (- int e),
        Dev_err ''I2C write failed for addr: %x'' [uint IMX585_STANDBY]]\<rparr>)"
    by (simp add: stop_streaming_standby_refused)
  then show "imx585_set_stream s 0 =
        Some (0, s\<lparr>trace := trace s @
                     [Regmap_write IMX585_STANDBY 1 (- int e),
                      Dev_err ''I2C write failed for addr: %x'' [uint IMX585_STANDBY],
                      Pm_runtime_put],
                   pm_usage := pm_usage s - 1,
                   vflip := v4l2_ctrl_grab (vflip s) False,
                   hflip := v4l2_ctrl_grab (hflip s) False\<rparr>)"
    by (simp add: imx585_set_stream_def pm_runtime_put_def Let_def)
qed

theorem set_stream_stop_witness:
  "regmap (attached_2lane_colour\<lparr>pm_usage := 1\<rparr>)
     (trace (attached_2lane_colour\<lparr>pm_usage := 1\<rparr>)) IMX585_STANDBY 1 = 0
   \<and> map_option (trace \<circ> snd) (imx585_set_stream (attached_2lane_colour\<lparr>pm_usage := 1\<rparr>) 0) =
       Some (trace attached_2lane_colour @
         [Regmap_write IMX585_STANDBY 1 0, Msleep 30, Regmap_write IMX585_XMSTA 1 0,
          Pm_runtime_put])
   \<and> regmap (attached_2lane_colour\<lparr>regmap := bus_failing_at IMX585_STANDBY EIO, pm_usage := 1\<rparr>)
       (trace (attached_2lane_colour\<lparr>regmap := bus_failing_at IMX585_STANDBY EIO,
                 pm_usage := 1\<rparr>)) IMX585_STANDBY 1 = EIO
   \<and> EIO \<noteq> 0
   \<and> map_option (trace \<circ> snd) (imx585_set_stream
         (attached_2lane_colour\<lparr>regmap := bus_failing_at IMX585_STANDBY EIO, pm_usage := 1\<rparr>) 0) =
       Some (trace attached_2lane_colour @
         [Regmap_write IMX585_STANDBY 1 (- int EIO),
          Dev_err ''I2C write failed for addr: %x'' [uint IMX585_STANDBY],
          Pm_runtime_put])"
proof -
  let ?ok = "attached_2lane_colour\<lparr>pm_usage := 1\<rparr>"
  let ?bad = "attached_2lane_colour\<lparr>regmap := bus_failing_at IMX585_STANDBY EIO, pm_usage := 1\<rparr>"
  have a: "regmap ?ok (trace ?ok) IMX585_STANDBY 1 = 0"
    and b: "regmap ?ok (trace ?ok @ [Regmap_write IMX585_STANDBY 1 0, Msleep 30])
      IMX585_XMSTA 1 = 0"
    by (simp_all add: attached_2lane_colour_def)
  have c: "regmap ?bad (trace ?bad) IMX585_STANDBY 1 = EIO" and d: "EIO \<noteq> 0"
    by (simp_all add: bus_failing_at_def EIO_def)
  from set_stream_stop [of ?ok 0 0] a b
  have 1: "map_option (trace \<circ> snd) (imx585_set_stream ?ok 0) =
       Some (trace attached_2lane_colour @
         [Regmap_write IMX585_STANDBY 1 0, Msleep 30, Regmap_write IMX585_XMSTA 1 0,
          Pm_runtime_put])"
    by simp
  from set_stream_stop [of ?bad 0 EIO] c d
  have 2: "map_option (trace \<circ> snd) (imx585_set_stream ?bad 0) =
       Some (trace attached_2lane_colour @
         [Regmap_write IMX585_STANDBY 1 (- int EIO),
          Dev_err ''I2C write failed for addr: %x'' [uint IMX585_STANDBY],
          Pm_runtime_put])"
    by simp
  from a c d 1 2 show ?thesis by simp
qed

subsection \<open>Try-scope negotiation and crop selection\<close>

text \<open>
  C9. For every requested width, height and code, \<open>imx585_set_fmt\<close> in try scope returns
  0 and hands back the very instance it was given: the active mode, \<open>bpp\<close>, the stored
  current format, every control with its range and value, and the effect history are all
  unchanged. Only the try format of the try state and the format handed back to the caller
  are written.
\<close>

theorem set_fmt_try_no_side_effect:
  "which fmt = V4L2_SUBDEV_FORMAT_TRY \<Longrightarrow>
   map_option fst (imx585_set_fmt s (Some st) fmt) = Some 0
   \<and> map_option (fst \<circ> snd) (imx585_set_fmt s (Some st) fmt) = Some s"
  by (simp add: imx585_set_fmt_def Let_def)

theorem set_fmt_try_no_side_effect_witness:
  "which \<lparr>which = V4L2_SUBDEV_FORMAT_TRY, pad = 0,
          format = zero_framefmt\<lparr>v4l2_mbus_framefmt.width := 1920,
                                  v4l2_mbus_framefmt.height := 1080,
                                  v4l2_mbus_framefmt.code := MEDIA_BUS_FMT_SRGGB12_1X12\<rparr>\<rparr> =
     V4L2_SUBDEV_FORMAT_TRY
   \<and> map_option (fst \<circ> snd) (imx585_set_fmt attached_2lane_colour
         (Some \<lparr>try_fmt = zero_framefmt,
                try_crop = \<lparr>left = 0, top = 0, v4l2_rect.width = 0, v4l2_rect.height = 0\<rparr>\<rparr>)
         \<lparr>which = V4L2_SUBDEV_FORMAT_TRY, pad = 0,
          format = zero_framefmt\<lparr>v4l2_mbus_framefmt.width := 1920,
                                  v4l2_mbus_framefmt.height := 1080,
                                  v4l2_mbus_framefmt.code := MEDIA_BUS_FMT_SRGGB12_1X12\<rparr>\<rparr>) =
       Some attached_2lane_colour"
  using set_fmt_try_no_side_effect
    [of "\<lparr>which = V4L2_SUBDEV_FORMAT_TRY, pad = 0,
          format = zero_framefmt\<lparr>v4l2_mbus_framefmt.width := 1920,
                                  v4l2_mbus_framefmt.height := 1080,
                                  v4l2_mbus_framefmt.code := MEDIA_BUS_FMT_SRGGB12_1X12\<rparr>\<rparr>"
        attached_2lane_colour
        "\<lparr>try_fmt = zero_framefmt,
          try_crop = \<lparr>left = 0, top = 0, v4l2_rect.width = 0, v4l2_rect.height = 0\<rparr>\<rparr>"]
  by simp

text \<open>
  The active mode is a catalog mode from attach on: negotiation either leaves it alone (try
  scope) or selects it from the catalog (active scope).
\<close>

lemma set_fmt_mode_in_catalog:
  assumes "imx585_set_fmt s st fmt = Some (ret, s', st', fmt')"
  shows "current_mode s' = current_mode s \<or> current_mode s' = Some (hd imx585_modes)"
proof (cases "which fmt = V4L2_SUBDEV_FORMAT_TRY")
  case True
  with assms have "s' = s"
    by (simp add: imx585_set_fmt_def Let_def split: option.splits)
  then show ?thesis by simp
next
  case False
  have "current_mode (fst (snd (the (imx585_set_fmt s st fmt)))) = Some (hd imx585_modes)"
    if "which fmt \<noteq> V4L2_SUBDEV_FORMAT_TRY"
    using that
    by (simp add: imx585_set_fmt_def Let_def range_modified_def split: option.split)
  with False assms show ?thesis by simp
qed


text \<open>
  C10. Whenever the active mode is a mode of the catalog, \<open>imx585_get_selection\<close> for the
  active-scope CROP target returns 0 and the rectangle left 0, top 20, width 3876,
  height 2204, which is the catalog mode's crop rectangle, built from the native sensor
  dimensions. It is strictly wider and taller than the mode's output size 3856 x 2180 and
  than the rectangle left 0, top 20, 3856 x 2180 returned for CROP_DEFAULT and
  CROP_BOUNDS.
\<close>

theorem get_selection_active_crop:
  "current_mode s = Some m \<Longrightarrow> m \<in> set imx585_modes \<Longrightarrow>
   target sel = V4L2_SEL_TGT_CROP \<Longrightarrow> sel_which sel = V4L2_SUBDEV_FORMAT_ACTIVE \<Longrightarrow>
   imx585_get_selection s sd_state sel =
     Some (0, sel\<lparr>r := \<lparr>left = 0, top = 20, v4l2_rect.width = 3876,
                         v4l2_rect.height = 2204\<rparr>\<rparr>)
   \<and> crop m = \<lparr>left = 0, top = 20, v4l2_rect.width = IMX585_NATIVE_WIDTH,
                v4l2_rect.height = IMX585_NATIVE_HEIGHT\<rparr>
   \<and> imx585_mode.width m = 3856 \<and> imx585_mode.height m = 2180
   \<and> imx585_mode.width m < v4l2_rect.width (crop m)
   \<and> imx585_mode.height m < v4l2_rect.height (crop m)
   \<and> imx585_get_selection s sd_state (sel\<lparr>target := V4L2_SEL_TGT_CROP_DEFAULT\<rparr>) =
       Some (0, sel\<lparr>target := V4L2_SEL_TGT_CROP_DEFAULT,
                     r := \<lparr>left = 0, top = 20, v4l2_rect.width = 3856,
                           v4l2_rect.height = 2180\<rparr>\<rparr>)
   \<and> imx585_get_selection s sd_state (sel\<lparr>target := V4L2_SEL_TGT_CROP_BOUNDS\<rparr>) =
       Some (0, sel\<lparr>target := V4L2_SEL_TGT_CROP_BOUNDS,
                     r := \<lparr>left = 0, top = 20, v4l2_rect.width = 3856,
                           v4l2_rect.height = 2180\<rparr>\<rparr>)
   \<and> IMX585_PIXEL_ARRAY_WIDTH < v4l2_rect.width (crop m)
   \<and> IMX585_PIXEL_ARRAY_HEIGHT < v4l2_rect.height (crop m)"
proof -
  assume m: "current_mode s = Some m" and cat: "m \<in> set imx585_modes"
    and tgt: "target sel = V4L2_SEL_TGT_CROP"
    and act: "sel_which sel = V4L2_SUBDEV_FORMAT_ACTIVE"
  from cat have c: "crop m = \<lparr>left = 0, top = 20, v4l2_rect.width = 3876,
      v4l2_rect.height = 2204\<rparr>"
    and w: "imx585_mode.width m = 3856" and h: "imx585_mode.height m = 2180"
    by (simp_all add: imx585_modes_def IMX585_PIXEL_ARRAY_LEFT_def IMX585_PIXEL_ARRAY_TOP_def
        IMX585_NATIVE_WIDTH_def IMX585_NATIVE_HEIGHT_def)
  have full: "(r sel)\<lparr>top := t, left := l, v4l2_rect.width := wd, v4l2_rect.height := ht\<rparr> =
      \<lparr>left = l, top = t, v4l2_rect.width = wd, v4l2_rect.height = ht\<rparr>" for t l wd ht
    by (cases "r sel") simp
  have 1: "imx585_get_selection s sd_state sel =
     Some (0, sel\<lparr>r := \<lparr>left = 0, top = 20, v4l2_rect.width = 3876,
                         v4l2_rect.height = 2204\<rparr>\<rparr>)"
    using m tgt act c by (simp add: imx585_get_selection_def imx585_get_pad_crop_def)
  have 2: "imx585_get_selection s sd_state (sel\<lparr>target := V4L2_SEL_TGT_CROP_DEFAULT\<rparr>) =
       Some (0, sel\<lparr>target := V4L2_SEL_TGT_CROP_DEFAULT,
                     r := \<lparr>left = 0, top = 20, v4l2_rect.width = 3856,
                           v4l2_rect.height = 2180\<rparr>\<rparr>)"
    by (simp add: imx585_get_selection_def full IMX585_PIXEL_ARRAY_LEFT_def
        IMX585_PIXEL_ARRAY_TOP_def IMX585_PIXEL_ARRAY_WIDTH_def IMX585_PIXEL_ARRAY_HEIGHT_def)
  have 3: "imx585_get_selection s sd_state (sel\<lparr>target := V4L2_SEL_TGT_CROP_BOUNDS\<rparr>) =
       Some (0, sel\<lparr>target := V4L2_SEL_TGT_CROP_BOUNDS,
                     r := \<lparr>left = 0, top = 20, v4l2_rect.width = 3856,
                           v4l2_rect.height = 2180\<rparr>\<rparr>)"
    by (simp add: imx585_get_selection_def full IMX585_PIXEL_ARRAY_LEFT_def
        IMX585_PIXEL_ARRAY_TOP_def IMX585_PIXEL_ARRAY_WIDTH_def IMX585_PIXEL_ARRAY_HEIGHT_def)
  from 1 2 3 c w h show ?thesis
    by (simp add: IMX585_NATIVE_WIDTH_def IMX585_NATIVE_HEIGHT_def IMX585_PIXEL_ARRAY_WIDTH_def
        IMX585_PIXEL_ARRAY_HEIGHT_def)
qed

theorem get_selection_active_crop_witness:
  "current_mode attached_2lane_colour = Some (hd imx585_modes)
   \<and> hd imx585_modes \<in> set imx585_modes
   \<and> imx585_get_selection attached_2lane_colour None
        \<lparr>sel_which = V4L2_SUBDEV_FORMAT_ACTIVE, sel_pad = 0, target = V4L2_SEL_TGT_CROP,
         r = \<lparr>left = 0, top = 0, v4l2_rect.width = 0, v4l2_rect.height = 0\<rparr>\<rparr> =
       Some (0, \<lparr>sel_which = V4L2_SUBDEV_FORMAT_ACTIVE, sel_pad = 0, target = V4L2_SEL_TGT_CROP,
                 r = \<lparr>left = 0, top = 20, v4l2_rect.width = 3876, v4l2_rect.height = 2204\<rparr>\<rparr>)"
proof -
  have a: "current_mode attached_2lane_colour = Some (hd imx585_modes)"
    by (simp add: attached_2lane_colour_def)
  have b: "hd imx585_modes \<in> set imx585_modes"
    by (simp add: imx585_modes_def)
  from get_selection_active_crop [OF a b, of
      "\<lparr>sel_which = V4L2_SUBDEV_FORMAT_ACTIVE, sel_pad = 0, target = V4L2_SEL_TGT_CROP,
        r = \<lparr>left = 0, top = 0, v4l2_rect.width = 0, v4l2_rect.height = 0\<rparr>\<rparr>" None] a b
  show ?thesis by simp
qed


end
